theory Spec2Isabelle
  imports Complex_Main "HOL-Library.Word"
begin

section \<open>JavaScript values\<close>

text \<open>
  A JavaScript string is a sequence of UTF-16 code units; \<open>length\<close>, \<open>slice\<close>,
  \<open>startsWith\<close>, \<open>includes\<close> and \<open>replace\<close> all count and compare code units.
  The literals of the sources are ASCII, apart from the summarisation instruction and the
  mask placeholder, which are written out as code units below.
\<close>

type_synonym jstring = "16 word list"

definition ascii :: "string \<Rightarrow> jstring" where
  "ascii s = map of_char s"

text \<open>
  Values as the code handles them (\<open>any\<close>): numbers are rationals (the code does no
  arithmetic on them), an object is the list of its own enumerable properties in
  enumeration order (its prototype is \<open>Object.prototype\<close>), and \<open>JBuiltin n\<close> is the
  built-in function that every object literal inherits from \<open>Object.prototype\<close> under
  the name \<open>n\<close>.
\<close>

datatype jsval =
    JUndefined
  | JNull
  | JBool bool
  | JNum rat
  | JStr jstring
  | JArr "jsval list"
  | JObj "(jstring \<times> jsval) list"
  | JBuiltin jstring

type_synonym jsrecord = "(jstring \<times> jsval) list"

fun truthy :: "jsval \<Rightarrow> bool" where
  "truthy JUndefined = False"
| "truthy JNull = False"
| "truthy (JBool b) = b"
| "truthy (JNum n) = (n \<noteq> 0)"
| "truthy (JStr s) = (s \<noteq> [])"
| "truthy (JArr xs) = True"
| "truthy (JObj kvs) = True"
| "truthy (JBuiltin n) = True"

text \<open>\<open>a || b\<close>\<close>

definition js_or :: "jsval \<Rightarrow> jsval \<Rightarrow> jsval" where
  "js_or a b = (if truthy a then a else b)"

text \<open>
  The property names an object literal inherits from \<open>Object.prototype\<close>. Reading one of
  them on an object that has no own property of that name yields the inherited member,
  which is truthy: a built-in function, or for \<open>__proto__\<close> the prototype itself, an
  object without enumerable properties.
\<close>

definition Object_prototype_names :: "jstring list" where
  "Object_prototype_names = map ascii
     [''constructor'', ''__defineGetter__'', ''__defineSetter__'', ''hasOwnProperty'',
      ''__lookupGetter__'', ''__lookupSetter__'', ''isPrototypeOf'',
      ''propertyIsEnumerable'', ''toString'', ''valueOf'', ''__proto__'',
      ''toLocaleString'']"

text \<open>\<open>obj[key]\<close> on an object whose prototype is \<open>Object.prototype\<close>\<close>

definition proto_name :: jstring where
  "proto_name = ascii ''__proto__''"

definition get_prop :: "jsrecord \<Rightarrow> jstring \<Rightarrow> jsval" where
  "get_prop kvs k =
     (case map_of kvs k of
        Some v \<Rightarrow> v
      | None \<Rightarrow>
          if k = proto_name then JObj []
          else if k \<in> set Object_prototype_names then JBuiltin k
          else JUndefined)"

section \<open>Model Registry (utils/ai)\<close>

definition AI_PROVIDER_URLS :: jsrecord where
  "AI_PROVIDER_URLS =
     [(ascii ''openai'', JStr (ascii ''https://api.openai.com/v1'')),
      (ascii ''claude'', JStr (ascii ''https://api.anthropic.com/v1'')),
      (ascii ''gemini'', JStr (ascii ''https://generativelanguage.googleapis.com/v1beta/openai'')),
      (ascii ''deepseek'', JStr (ascii ''https://api.deepseek.com/v1''))]"

definition WORKER_AI_MODELS :: jsrecord where
  "WORKER_AI_MODELS =
     [(ascii ''llama-3-8b'', JStr (ascii ''@cf/meta/llama-3-8b-instruct'')),
      (ascii ''llama-3-1-8b'', JStr (ascii ''@cf/meta/llama-3.1-8b-instruct'')),
      (ascii ''llama-2-7b'', JStr (ascii ''@cf/meta/llama-2-7b-chat-int8'')),
      (ascii ''mistral-7b'', JStr (ascii ''@cf/mistral/mistral-7b-instruct-v0.1'')),
      (ascii ''mistral-7b-v2'', JStr (ascii ''@cf/mistral/mistral-7b-instruct-v0.2-lora'')),
      (ascii ''gemma-2b'', JStr (ascii ''@cf/google/gemma-2b-it-lora'')),
      (ascii ''gemma-7b'', JStr (ascii ''@cf/google/gemma-7b-it-lora'')),
      (ascii ''deepseek-coder'', JStr (ascii ''@cf/deepseek-ai/deepseek-coder-6.7b-base-awq'')),
      (ascii ''qwen-7b'', JStr (ascii ''@cf/qwen/qwen1.5-7b-chat-awq''))]"

text \<open>\<open>return WORKER_AI_MODELS[shortName] || shortName\<close>\<close>

definition getWorkerAIModelId :: "jstring \<Rightarrow> jsval" where
  "getWorkerAIModelId shortName = js_or (get_prop WORKER_AI_MODELS shortName) (JStr shortName)"


section \<open>String operations of the runtime\<close>

text \<open>\<open>s.startsWith(p)\<close>\<close>

fun startsWith :: "jstring \<Rightarrow> jstring \<Rightarrow> bool" where
  "startsWith s [] = True"
| "startsWith [] (p # ps) = False"
| "startsWith (c # cs) (p # ps) = (c = p \<and> startsWith cs ps)"

text \<open>\<open>s.includes(p)\<close>: \<open>p\<close> occurs in \<open>s\<close> at some position\<close>

fun js_includes :: "jstring \<Rightarrow> jstring \<Rightarrow> bool" where
  "js_includes [] p = (p = [])"
| "js_includes (c # cs) p = (startsWith (c # cs) p \<or> js_includes cs p)"

text \<open>
  \<open>s.replace(pat, rep)\<close> with a string pattern: the first occurrence only
  (the one replacement the sources use is the empty string, which has no \<open>$\<close> pattern).
\<close>

fun replace_first :: "jstring \<Rightarrow> jstring \<Rightarrow> jstring \<Rightarrow> jstring" where
  "replace_first [] pat rep = (if pat = [] then rep else [])"
| "replace_first (c # cs) pat rep =
     (if startsWith (c # cs) pat then rep @ drop (length pat) (c # cs)
      else c # replace_first cs pat rep)"

text \<open>The code units \<open>trim\<close> strips: white space and line terminators.\<close>

definition is_js_whitespace :: "16 word \<Rightarrow> bool" where
  "is_js_whitespace c \<longleftrightarrow>
     c \<in> set [0x09, 0x0A, 0x0B, 0x0C, 0x0D, 0x20, 0xA0, 0x1680, 0x2028, 0x2029,
              0x202F, 0x205F, 0x3000, 0xFEFF]
     \<or> (0x2000 \<le> c \<and> c \<le> 0x200A)"

definition trim :: "jstring \<Rightarrow> jstring" where
  "trim s = rev (dropWhile is_js_whitespace (rev (dropWhile is_js_whitespace s)))"

text \<open>A non-negative integer in a template literal: its decimal digits.\<close>

fun decimal :: "nat \<Rightarrow> jstring" where
  "decimal n =
     (if n < 10 then [of_nat (48 + n)]
      else decimal (n div 10) @ [of_nat (48 + n mod 10)])"

declare decimal.simps [simp del]

section \<open>The host: inference binding, transport, built-ins\<close>

text \<open>
  A rejected promise or a thrown exception carries an \<open>Error\<close> instance; the code reads
  nothing of it but \<open>message\<close>.
\<close>

datatype exn = Error (message: jstring)

text \<open>Faults the engine itself raises; the wording of their messages is the engine's.\<close>

datatype engine_fault =
    Read_of_nullish jsval jstring
  | Not_a_function jstring

record request =
  req_url :: jstring
  req_method :: jstring
  req_headers :: "(jstring \<times> jstring) list"
  req_body :: jstring

text \<open>
  A \<open>Response\<close>: its status, and what \<open>text()\<close> and \<open>json()\<close> resolve to or reject
  with. \<open>ok\<close> is true for the statuses 200 to 299.
\<close>

record http_response =
  resp_status :: nat
  resp_text :: "exn + jstring"
  resp_json :: "exn + jsval"

definition resp_ok :: "http_response \<Rightarrow> bool" where
  "resp_ok r \<longleftrightarrow> 200 \<le> resp_status r \<and> resp_status r \<le> 299"

text \<open>
  What the code takes from outside the repository: the global \<open>fetch\<close>,
  \<open>JSON.stringify\<close>, the string an inherited built-in converts to in a template
  literal, and the engine's fault messages.
\<close>

record host =
  fetch :: "request \<Rightarrow> exn + http_response"
  JSON_stringify :: "jsval \<Rightarrow> jstring"
  builtin_source :: "jstring \<Rightarrow> jstring"
  fault_message :: "engine_fault \<Rightarrow> jstring"

text \<open>
  \<open>Env\<close>: \<open>env.AI.run(modelId, {messages: [{role: "user", content: input}]})\<close> as a
  function of the model id and the input, and the plain values \<open>env[name]\<close>.
\<close>

record Env =
  AI_run :: "jsval \<Rightarrow> jstring \<Rightarrow> exn + jsval"
  vars :: "jstring \<Rightarrow> jsval"

text \<open>The calls that leave the program, in the order they are made.\<close>

datatype call =
    AI_run_call jsval jstring
  | Fetch_call request

text \<open>\<open>name in obj\<close> on an object whose prototype is \<open>Object.prototype\<close>\<close>

definition has_prop :: "jsrecord \<Rightarrow> jstring \<Rightarrow> bool" where
  "has_prop kvs k \<longleftrightarrow> map_of kvs k \<noteq> None \<or> k \<in> set Object_prototype_names"

section \<open>Provider clients (utils/ai)\<close>

text \<open>
  \<open>executeWorkerAI\<close>. An array is an object too, and has none of the four properties, so
  it is serialised; \<open>typeof\<close> of a function is \<open>'function'\<close>.
\<close>

definition executeWorkerAI ::
  "host \<Rightarrow> Env \<Rightarrow> jsval \<Rightarrow> jstring \<Rightarrow> call list \<times> (exn + jsval)" where
  "executeWorkerAI h env modelId input =
     ([AI_run_call modelId input],
      case AI_run env modelId input of
        Inl e \<Rightarrow> Inl e
      | Inr responseObj \<Rightarrow>
          (case responseObj of
             JObj kvs \<Rightarrow>
               if has_prop kvs (ascii ''response'') then Inr (get_prop kvs (ascii ''response''))
               else if has_prop kvs (ascii ''content'') then Inr (get_prop kvs (ascii ''content''))
               else if has_prop kvs (ascii ''output'') then Inr (get_prop kvs (ascii ''output''))
               else if has_prop kvs (ascii ''result'') then Inr (get_prop kvs (ascii ''result''))
               else Inr (JStr (JSON_stringify h responseObj))
           | JArr xs \<Rightarrow> Inr (JStr (JSON_stringify h responseObj))
           | JStr s \<Rightarrow> Inr (JStr s)
           | _ \<Rightarrow> Inr JNull))"

record ext_config =
  provider :: jstring
  model :: jstring
  api_key :: jstring
  api_url :: jstring

text \<open>\<open>v?.name\<close> for a name that no primitive, array or function has as a property\<close>

fun opt_member :: "jsval \<Rightarrow> jstring \<Rightarrow> jsval" where
  "opt_member (JObj kvs) k = get_prop kvs k"
| "opt_member v k = JUndefined"

text \<open>\<open>v?.[0]\<close>\<close>

fun opt_first :: "jsval \<Rightarrow> jsval" where
  "opt_first (JArr xs) = (case xs of [] \<Rightarrow> JUndefined | x # _ \<Rightarrow> x)"
| "opt_first (JStr s) = (case s of [] \<Rightarrow> JUndefined | c # _ \<Rightarrow> JStr [c])"
| "opt_first (JObj kvs) = get_prop kvs (ascii ''0'')"
| "opt_first v = JUndefined"

text \<open>\<open>data.choices?.[0]?.message?.content?.trim() || null\<close>\<close>

definition extract_content :: "host \<Rightarrow> jsval \<Rightarrow> exn + jsval" where
  "extract_content h data =
     (if data = JNull \<or> data = JUndefined
      then Inl (Error (fault_message h (Read_of_nullish data (ascii ''choices''))))
      else
        (case opt_member (opt_first (opt_member data (ascii ''choices''))) (ascii ''message'') of
           JObj m \<Rightarrow>
             (case get_prop m (ascii ''content'') of
                JUndefined \<Rightarrow> Inr JNull
              | JNull \<Rightarrow> Inr JNull
              | JStr s \<Rightarrow> Inr (js_or (JStr (trim s)) JNull)
              | _ \<Rightarrow> Inl (Error (fault_message h (Not_a_function (ascii ''trim'')))))
         | _ \<Rightarrow> Inr JNull))"

definition chat_request :: "host \<Rightarrow> jstring \<Rightarrow> jstring \<Rightarrow> jstring \<Rightarrow> jstring \<Rightarrow> request" where
  "chat_request h base key mdl input =
     \<lparr>req_url = base @ ascii ''/chat/completions'',
      req_method = ascii ''POST'',
      req_headers =
        [(ascii ''Content-Type'', ascii ''application/json''),
         (ascii ''Authorization'', ascii ''Bearer '' @ key)],
      req_body = JSON_stringify h (JObj
        [(ascii ''model'', JStr mdl),
         (ascii ''messages'', JArr [JObj [(ascii ''role'', JStr (ascii ''user'')),
                                          (ascii ''content'', JStr input)]]),
         (ascii ''max_tokens'', JNum 500),
         (ascii ''temperature'', JNum (3 / 10))])\<rparr>"

text \<open>
  \<open>${finalApiUrl}\<close>, for the values \<open>finalApiUrl\<close> can hold: a string, or what the
  lookup in the table of default URLs found on the prototype (a built-in function, which
  converts to its source text, or an object).
\<close>

fun template_text :: "host \<Rightarrow> jsval \<Rightarrow> jstring" where
  "template_text h (JStr s) = s"
| "template_text h (JBuiltin n) = builtin_source h n"
| "template_text h (JObj kvs) = ascii ''[object Object]''"
| "template_text h v = []"

text \<open>\<open>executeExternalAI\<close>\<close>

definition executeExternalAI ::
  "host \<Rightarrow> 'a ext_config_scheme \<Rightarrow> jstring \<Rightarrow> call list \<times> (exn + jsval)" where
  "executeExternalAI h config input =
     (if api_key config = [] then ([], Inl (Error (ascii ''API key not configured'')))
      else
        let finalApiUrl = js_or (JStr (api_url config)) (get_prop AI_PROVIDER_URLS (provider config))
        in if \<not> truthy finalApiUrl then ([], Inl (Error (ascii ''API URL not configured'')))
           else
             let base = template_text h finalApiUrl;
                 req = chat_request h base (api_key config) (model config) input
             in ([Fetch_call req],
                 case fetch h req of
                   Inl e \<Rightarrow> Inl e
                 | Inr response \<Rightarrow>
                     if \<not> resp_ok response then
                       (case resp_text response of
                          Inl e \<Rightarrow> Inl e
                        | Inr errorText \<Rightarrow>
                            Inl (Error (ascii ''API error '' @ decimal (resp_status response)
                                        @ ascii '': '' @ errorText)))
                     else
                       (case resp_json response of
                          Inl e \<Rightarrow> Inl e
                        | Inr data \<Rightarrow> extract_content h data)))"

section \<open>Error classifier and dispatcher (utils/ai)\<close>

record test_result =
  success :: bool
  response :: "jsval option"
  error :: "jstring option"
  details :: "jstring option"

text \<open>The double quote of the two \<open>details\<close> templates.\<close>

definition dquote :: jstring where
  "dquote = [0x22]"

text \<open>\<open>processAIError\<close>; the \<open>console.error\<close> line writes a log and nothing else.\<close>

definition processAIError :: "exn \<Rightarrow> jstring \<Rightarrow> jstring \<Rightarrow> test_result" where
  "processAIError err mdl prov =
     (let originalMessage = (if message err \<noteq> [] then message err else ascii ''Unknown error'');
          (errorMessage, errorDetails) =
            (if js_includes originalMessage (ascii ''fetch failed'')
                \<or> js_includes originalMessage (ascii ''NetworkError'')
             then (ascii ''Network error: Unable to connect to AI service'',
                   ascii ''Please check your API URL and network connection.'')
             else if js_includes originalMessage (ascii ''401'')
                \<or> js_includes originalMessage (ascii ''Unauthorized'')
             then (ascii ''Authentication failed: Invalid API key'',
                   ascii ''Please check your API key is correct and not expired.'')
             else if js_includes originalMessage (ascii ''429'')
             then (ascii ''Rate limit exceeded'',
                   ascii ''Too many requests. Please wait a moment.'')
             else if js_includes originalMessage (ascii ''404'')
             then (ascii ''Model not found'',
                   ascii ''Model '' @ dquote @ mdl @ dquote @ ascii '' not found for provider ''
                     @ dquote @ prov @ dquote @ ascii ''.'')
             else if js_includes originalMessage (ascii ''500'')
                \<or> js_includes originalMessage (ascii ''503'')
             then (ascii ''AI service temporarily unavailable'',
                   ascii ''Service is experiencing issues. Please try again later.'')
             else if js_includes originalMessage (ascii ''Invalid'')
             then (ascii ''AI model error: '' @ originalMessage,
                   ascii ''Model '' @ dquote @ mdl @ dquote
                     @ ascii '' may not be supported. Please verify the model ID.'')
             else (originalMessage, []))
      in \<lparr>success = False, response = None, error = Some errorMessage,
          details = Some (if errorDetails \<noteq> [] then errorDetails
                          else ascii ''Original: '' @ originalMessage)\<rparr>)"

text \<open>The configuration \<open>testAIModel\<close> takes: \<open>api_key\<close> and \<open>api_url\<close> are optional.\<close>

record test_config =
  t_provider :: jstring
  t_model :: jstring
  t_api_key :: "jstring option"
  t_api_url :: "jstring option"

text \<open>\<open>x || d\<close> for an optional string \<open>x\<close> (\<open>None\<close> is \<open>undefined\<close>)\<close>

definition opt_or :: "jstring option \<Rightarrow> jstring \<Rightarrow> jstring" where
  "opt_or x d = (case x of Some s \<Rightarrow> if s \<noteq> [] then s else d | None \<Rightarrow> d)"

text \<open>\<open>testAIModel\<close>; the \<open>console.log\<close> line writes a log and nothing else.\<close>

definition testAIModel ::
  "host \<Rightarrow> Env \<Rightarrow> test_config \<Rightarrow> jstring \<Rightarrow> call list \<times> test_result" where
  "testAIModel h env config testPrompt =
     (let (calls, outcome) =
            (if t_provider config = ascii ''worker-ai''
             then executeWorkerAI h env (getWorkerAIModelId (t_model config)) testPrompt
             else executeExternalAI h
                    \<lparr>provider = t_provider config, model = t_model config,
                     api_key = opt_or (t_api_key config) [],
                     api_url = opt_or (t_api_url config) []\<rparr> testPrompt)
      in (calls,
          case outcome of
            Inr result \<Rightarrow>
              if truthy result
              then \<lparr>success = True, response = Some result, error = None, details = None\<rparr>
              else \<lparr>success = False, response = None,
                    error = Some (ascii ''Empty response from AI''), details = None\<rparr>
          | Inl e \<Rightarrow> processAIError e (t_model config) (t_provider config)))"

text \<open>The stored AI configuration, as \<open>getAIConfig(db)\<close> resolves to it.\<close>

record ai_config = ext_config +
  enabled :: bool

definition maxContentLength :: nat where
  "maxContentLength = 8000"

text \<open>The instruction of the worker-ai branch, up to and including its two line feeds.\<close>

definition summary_instruction :: jstring where
  "summary_instruction =
     [0x8BF7, 0x7528, 0x7B80, 0x6D01, 0x7684, 0x4E2D, 0x6587, 0x603B, 0x7ED3, 0x4EE5,
      0x4E0B, 0x5185, 0x5BB9, 0xFF0C, 0x4E0D, 0x8D85, 0x8FC7, 0x32, 0x30, 0x30, 0x5B57,
      0xFF1A, 0x0A, 0x0A]"

definition truncatedContent :: "jstring \<Rightarrow> jstring" where
  "truncatedContent content =
     (if length content > maxContentLength
      then take maxContentLength content @ ascii ''...''
      else content)"

text \<open>
  \<open>generateAISummary\<close>, from the configuration that \<open>getAIConfig(db)\<close> resolved to.
  The \<open>try\<close> block holds the dispatch; its \<open>catch\<close> logs and returns \<open>null\<close>.
\<close>

definition generateAISummary ::
  "host \<Rightarrow> Env \<Rightarrow> ai_config \<Rightarrow> jstring \<Rightarrow> call list \<times> (exn + jsval)" where
  "generateAISummary h env config content =
     (if \<not> enabled config then ([], Inr JNull)
      else
        let (calls, outcome) =
              (if provider config = ascii ''worker-ai''
               then executeWorkerAI h env (getWorkerAIModelId (model config))
                      (summary_instruction @ truncatedContent content)
               else executeExternalAI h config (truncatedContent content))
        in (calls, case outcome of Inr result \<Rightarrow> Inr result | Inl e \<Rightarrow> Inr JNull))"

definition getAvailableModels :: "jstring \<Rightarrow> jstring list" where
  "getAvailableModels prov =
     (if prov = ascii ''worker-ai'' then map fst WORKER_AI_MODELS else [])"

definition requiresApiKey :: "jstring \<Rightarrow> bool" where
  "requiresApiKey prov \<longleftrightarrow> prov \<noteq> ascii ''worker-ai''"

section \<open>Objects built by the configuration service\<close>

text \<open>
  Defining an own property (\<open>Object.fromEntries\<close>, an object literal, a spread): an
  existing key keeps its place, a new key goes last. The keys of a record are distinct.
\<close>

fun obj_put :: "jsrecord \<Rightarrow> jstring \<Rightarrow> jsval \<Rightarrow> jsrecord" where
  "obj_put [] k v = [(k, v)]"
| "obj_put ((k', v') # r) k v = (if k' = k then (k, v) # r else (k', v') # obj_put r k v)"

definition Object_fromEntries :: "(jstring \<times> jsval) list \<Rightarrow> jsrecord" where
  "Object_fromEntries entries = foldl (\<lambda>obj (k, v). obj_put obj k v) [] entries"

text \<open>
  The own properties after \<open>obj[k] = v\<close> on an object whose prototype is
  \<open>Object.prototype\<close>. The key \<open>__proto__\<close>, unless the object has an own property
  of that name, reaches the inherited setter: no own property is created (the setter
  replaces the prototype when \<open>v\<close> is an object or \<open>null\<close>, which a list of own
  properties does not record).
\<close>

definition obj_assign :: "jsrecord \<Rightarrow> jstring \<Rightarrow> jsval \<Rightarrow> jsrecord" where
  "obj_assign obj k v =
     (if k = proto_name \<and> map_of obj proto_name = None then obj else obj_put obj k v)"

text \<open>
  An object the handler builds from \<open>{}\<close> and then enumerates with \<open>for ... in\<close>: its
  own properties, and the value its prototype was replaced with, if it was
  (\<open>None\<close>: still \<open>Object.prototype\<close>).
\<close>

record local_obj =
  own :: jsrecord
  proto :: "jsval option"

definition empty_obj :: local_obj where
  "empty_obj = \<lparr>own = [], proto = None\<rparr>"

text \<open>Whether the name \<open>__proto__\<close> resolves to the accessor of \<open>Object.prototype\<close>.\<close>

definition setter_reachable :: "local_obj \<Rightarrow> bool" where
  "setter_reachable obj \<longleftrightarrow>
     map_of (own obj) proto_name = None
     \<and> (case proto obj of
          None \<Rightarrow> True
        | Some JNull \<Rightarrow> False
        | Some (JObj p) \<Rightarrow> map_of p proto_name = None
        | Some _ \<Rightarrow> True)"

definition is_object :: "jsval \<Rightarrow> bool" where
  "is_object v = (case v of JObj _ \<Rightarrow> True | JArr _ \<Rightarrow> True | JBuiltin _ \<Rightarrow> True | _ \<Rightarrow> False)"

text \<open>\<open>obj[k] = v\<close>\<close>

definition local_assign :: "local_obj \<Rightarrow> jstring \<Rightarrow> jsval \<Rightarrow> local_obj" where
  "local_assign obj k v =
     (if k = proto_name \<and> setter_reachable obj
      then (if is_object v \<or> v = JNull then obj\<lparr>proto := Some v\<rparr> else obj)
      else obj\<lparr>own := obj_put (own obj) k v\<rparr>)"

text \<open>
  \<open>for (const key in obj)\<close> with \<open>obj[key]\<close>: the own properties, then the enumerable
  properties of a replaced prototype that no own property shadows (the properties of an
  object, the elements of an array under their indices).
\<close>

definition for_in_entries :: "local_obj \<Rightarrow> (jstring \<times> jsval) list" where
  "for_in_entries obj =
     own obj @
     filter (\<lambda>(k, v). map_of (own obj) k = None)
       (case proto obj of
          Some (JObj p) \<Rightarrow> p
        | Some (JArr xs) \<Rightarrow> zip (map decimal [0..<length xs]) xs
        | _ \<Rightarrow> [])"

section \<open>Configuration service (services/config)\<close>

definition SENSITIVE_FIELDS :: "jstring list" where
  "SENSITIVE_FIELDS = [ascii ''ai_summary.api_key'']"

definition AI_CONFIG_KEYS :: "jstring list" where
  "AI_CONFIG_KEYS =
     [ascii ''ai_summary.enabled'', ascii ''ai_summary.provider'', ascii ''ai_summary.model'',
      ascii ''ai_summary.api_key'', ascii ''ai_summary.api_url'']"

definition CLIENT_CONFIG_ENV_DEFAULTS :: "(jstring \<times> jstring) list" where
  "CLIENT_CONFIG_ENV_DEFAULTS =
     [(ascii ''site.name'', ascii ''NAME''),
      (ascii ''site.description'', ascii ''DESCRIPTION''),
      (ascii ''site.avatar'', ascii ''AVATAR''),
      (ascii ''site.page_size'', ascii ''PAGE_SIZE'')]"

text \<open>The placeholder: eight bullets (U+2022).\<close>

definition mask_placeholder :: jstring where
  "mask_placeholder = [0x2022, 0x2022, 0x2022, 0x2022, 0x2022, 0x2022, 0x2022, 0x2022]"

text \<open>The loop of \<open>maskSensitiveFields\<close>: the entries still to visit, the result so far.\<close>

fun mask_loop :: "jsrecord \<Rightarrow> jsrecord \<Rightarrow> jsrecord" where
  "mask_loop [] result = result"
| "mask_loop ((key, val) # rest) result =
     mask_loop rest
       (obj_assign result key
          (if key \<in> set SENSITIVE_FIELDS \<and> truthy val then JStr mask_placeholder else val))"

definition maskSensitiveFields :: "jsrecord \<Rightarrow> jsrecord" where
  "maskSensitiveFields config = mask_loop config []"

definition isAIConfigKey :: "jstring \<Rightarrow> bool" where
  "isAIConfigKey key \<longleftrightarrow> key \<in> set AI_CONFIG_KEYS \<or> startsWith key (ascii ''ai_summary.'')"

text \<open>The first loop of \<open>getClientConfigWithDefaults\<close>, over the entries of the table.\<close>

fun env_defaults_loop :: "Env \<Rightarrow> (jstring \<times> jstring) list \<Rightarrow> jsrecord \<Rightarrow> jsrecord" where
  "env_defaults_loop env [] result = result"
| "env_defaults_loop env ((configKey, envKey) # rest) result =
     env_defaults_loop env rest
       (if get_prop result configKey = JUndefined \<or> get_prop result configKey = JStr []
        then (let envValue = vars env envKey
              in if truthy envValue then obj_assign result configKey envValue else result)
        else result)"

text \<open>
  \<open>getClientConfigWithDefaults\<close>, from the entries \<open>clientConfig.all()\<close> resolved to.
\<close>

definition getClientConfigWithDefaults :: "(jstring \<times> jsval) list \<Rightarrow> Env \<Rightarrow> jsrecord" where
  "getClientConfigWithDefaults all_entries env =
     (let result = env_defaults_loop env CLIENT_CONFIG_ENV_DEFAULTS (Object_fromEntries all_entries)
      in if get_prop result (ascii ''site.page_size'') = JUndefined
            \<or> get_prop result (ascii ''site.page_size'') = JStr []
         then obj_assign result (ascii ''site.page_size'') (JNum 5)
         else result)"

text \<open>What a handler answers: the status it sets, if any, and the value it returns.\<close>

datatype payload =
    Text jstring
  | Object jsrecord
  | Test_result test_result

record reply =
  set_status :: "nat option"
  returned :: payload

text \<open>The body of \<open>POST /config/test-ai\<close>: every field is an optional string.\<close>

record test_body =
  b_provider :: "jstring option"
  b_model :: "jstring option"
  b_api_url :: "jstring option"
  b_api_key :: "jstring option"
  b_testPrompt :: "jstring option"

text \<open>The override configuration of the handler, over the stored one.\<close>

definition testConfig :: "test_body \<Rightarrow> ai_config \<Rightarrow> test_config" where
  "testConfig body config =
     \<lparr>t_provider = opt_or (b_provider body) (provider config),
      t_model = opt_or (b_model body) (model config),
      t_api_key = (case b_api_key body of Some k \<Rightarrow> Some k | None \<Rightarrow> Some (api_key config)),
      t_api_url = (case b_api_url body of Some u \<Rightarrow> Some u | None \<Rightarrow> Some (api_url config))\<rparr>"

text \<open>
  \<open>POST /config/test-ai\<close>, from the stored configuration \<open>getAIConfig(db)\<close> resolved to.
\<close>

definition post_test_ai ::
  "host \<Rightarrow> Env \<Rightarrow> bool \<Rightarrow> test_body \<Rightarrow> ai_config \<Rightarrow> call list \<times> reply" where
  "post_test_ai h env admin body config =
     (if \<not> admin
      then ([], \<lparr>set_status = Some 401,
                 returned = Object [(ascii ''error'', JStr (ascii ''Unauthorized''))]\<rparr>)
      else
        let testPrompt = opt_or (b_testPrompt body)
              (ascii ''Hello! This is a test message. Please respond with a simple greeting.'');
            (calls, res) = testAIModel h env (testConfig body config) testPrompt
        in (calls, \<lparr>set_status = None, returned = Test_result res\<rparr>))"

text \<open>What \<open>getAIConfigForFrontend(db)\<close> resolves to, as the handlers read it.\<close>

record frontend_ai_config =
  fe_enabled :: "bool option"
  fe_provider :: jsval
  fe_model :: jsval
  fe_api_url :: jsval
  fe_api_key_set :: jsval

text \<open>
  \<open>GET /config/:type\<close>, from the entries the two stores and the AI configuration
  resolved to. \<open>String(enabled)\<close> is \<open>true\<close>, \<open>false\<close> or \<open>undefined\<close>.
\<close>

definition get_config ::
  "Env \<Rightarrow> bool \<Rightarrow> jstring \<Rightarrow> (jstring \<times> jsval) list \<Rightarrow> (jstring \<times> jsval) list
   \<Rightarrow> frontend_ai_config \<Rightarrow> reply" where
  "get_config env admin type server_all client_all aiConfig =
     (if type \<noteq> ascii ''server'' \<and> type \<noteq> ascii ''client''
      then \<lparr>set_status = Some 400, returned = Text (ascii ''Invalid type'')\<rparr>
      else if type = ascii ''server'' \<and> \<not> admin
      then \<lparr>set_status = Some 401, returned = Text (ascii ''Unauthorized'')\<rparr>
      else if type = ascii ''server''
      then
        let configObj = Object_fromEntries server_all;
            configObj = obj_assign configObj (ascii ''ai_summary.enabled'')
              (JStr (case fe_enabled aiConfig of
                       Some True \<Rightarrow> ascii ''true''
                     | Some False \<Rightarrow> ascii ''false''
                     | None \<Rightarrow> ascii ''undefined''));
            configObj = obj_assign configObj (ascii ''ai_summary.provider'') (fe_provider aiConfig);
            configObj = obj_assign configObj (ascii ''ai_summary.model'') (fe_model aiConfig);
            configObj = obj_assign configObj (ascii ''ai_summary.api_url'') (fe_api_url aiConfig);
            configObj = obj_assign configObj (ascii ''ai_summary.api_key'')
              (if truthy (fe_api_key_set aiConfig) then JStr mask_placeholder else JStr [])
        in \<lparr>set_status = None, returned = Object (maskSensitiveFields configObj)\<rparr>
      else
        let clientConfigData = getClientConfigWithDefaults client_all env
        in \<lparr>set_status = None,
            returned = Object (obj_put clientConfigData (ascii ''ai_summary.enabled'')
              (JBool (case fe_enabled aiConfig of Some b \<Rightarrow> b | None \<Rightarrow> False)))\<rparr>)"

text \<open>What a write does to the stores, in order.\<close>

datatype effect =
    Config_set jstring jstring jsval bool
  | Config_save jstring
  | SetAIConfig local_obj

text \<open>The first loop of \<open>POST /config/:type\<close>: the pair \<open>(regularConfig, aiConfigUpdates)\<close>.\<close>

fun separate :: "jsrecord \<Rightarrow> local_obj \<times> local_obj \<Rightarrow> local_obj \<times> local_obj" where
  "separate [] acc = acc"
| "separate ((key, val) # rest) (regularConfig, aiConfigUpdates) =
     separate rest
       (if isAIConfigKey key
        then (regularConfig,
              local_assign aiConfigUpdates (replace_first key (ascii ''ai_summary.'') []) val)
        else (local_assign regularConfig key val, aiConfigUpdates))"

text \<open>
  \<open>POST /config/:type\<close>: \<open>config.set(key, value, false)\<close> on the store of the namespace
  for every enumerated key of \<open>regularConfig\<close>, \<open>config.save()\<close>, and
  \<open>setAIConfig(db, aiConfigUpdates)\<close> when \<open>aiConfigUpdates\<close> has an own key.
\<close>

definition post_config :: "bool \<Rightarrow> jstring \<Rightarrow> jsrecord \<Rightarrow> reply \<times> effect list" where
  "post_config admin type body =
     (if type \<noteq> ascii ''server'' \<and> type \<noteq> ascii ''client''
      then (\<lparr>set_status = Some 400, returned = Text (ascii ''Invalid type'')\<rparr>, [])
      else if \<not> admin
      then (\<lparr>set_status = Some 401, returned = Text (ascii ''Unauthorized'')\<rparr>, [])
      else
        let (regularConfig, aiConfigUpdates) = separate body (empty_obj, empty_obj)
        in (\<lparr>set_status = None, returned = Text (ascii ''OK'')\<rparr>,
            map (\<lambda>(key, val). Config_set type key val False) (for_in_entries regularConfig)
            @ [Config_save type]
            @ (if own aiConfigUpdates \<noteq> [] then [SetAIConfig aiConfigUpdates] else [])))"

text \<open>
  Modelled from the spec: \<open>getAIConfigForFrontend\<close> of \<open>utils/db-config\<close>, which is
  not among the sources. Read access returns the stored fields with, in place of the key,
  a boolean that says whether a key is set (the stored key is not empty).
\<close>

definition getAIConfigForFrontend :: "ai_config \<Rightarrow> frontend_ai_config" where
  "getAIConfigForFrontend config =
     \<lparr>fe_enabled = Some (enabled config), fe_provider = JStr (provider config),
      fe_model = JStr (model config), fe_api_url = JStr (api_url config),
      fe_api_key_set = JBool (api_key config \<noteq> [])\<rparr>"

text \<open>
  Modelled from the spec: \<open>setAIConfig\<close> of \<open>utils/db-config\<close>, which is not among
  the sources, for an update that names \<open>api_key\<close> with a string: the stored key is
  replaced, the other fields stay.
\<close>

definition set_api_key :: "ai_config \<Rightarrow> jstring \<Rightarrow> ai_config" where
  "set_api_key config k = config\<lparr>api_key := k\<rparr>"

text \<open>The property \<open>k\<close> of the object a handler returned, if it returned one with it.\<close>

definition returned_field :: "reply \<Rightarrow> jstring \<Rightarrow> jsval option" where
  "returned_field r k = (case returned r of Object obj \<Rightarrow> map_of obj k | _ \<Rightarrow> None)"

section \<open>Fixtures for concrete runs\<close>

text \<open>A transport that always answers with the given status and body.\<close>

definition answering_host :: "nat \<Rightarrow> jstring \<Rightarrow> host" where
  "answering_host st body =
     \<lparr>fetch = (\<lambda>req. Inr \<lparr>resp_status = st, resp_text = Inr body,
                              resp_json = Inl (Error (ascii ''Unexpected token''))\<rparr>),
      JSON_stringify = (\<lambda>v. ascii ''{}''),
      builtin_source = (\<lambda>n. ascii ''function'' @ n),
      fault_message = (\<lambda>f. ascii ''TypeError'')\<rparr>"

text \<open>An inference binding that always resolves to the given value.\<close>

definition answering_env :: "jsval \<Rightarrow> Env" where
  "answering_env v = \<lparr>AI_run = (\<lambda>m i. Inr v), vars = (\<lambda>k. JUndefined)\<rparr>"

text \<open>An inference binding that always rejects.\<close>

definition rejecting_env :: Env where
  "rejecting_env = \<lparr>AI_run = (\<lambda>m i. Inl (Error (ascii ''boom''))), vars = (\<lambda>k. JUndefined)\<rparr>"

definition demo_config :: "bool \<Rightarrow> string \<Rightarrow> string \<Rightarrow> string \<Rightarrow> ai_config" where
  "demo_config en prov key u =
     \<lparr>provider = ascii prov, model = ascii ''m'', api_key = ascii key, api_url = ascii u,
      enabled = en\<rparr>"

definition demo_test_config :: "string \<Rightarrow> string \<Rightarrow> test_config" where
  "demo_test_config prov key =
     \<lparr>t_provider = ascii prov, t_model = ascii ''m'', t_api_key = Some (ascii key),
      t_api_url = None\<rparr>"

text \<open>An environment that supplies \<open>NAME\<close> and nothing else.\<close>

definition acme_env :: Env where
  "acme_env =
     \<lparr>AI_run = (\<lambda>m i. Inr JNull),
      vars = (\<lambda>k. if k = ascii ''NAME'' then JStr (ascii ''Acme'') else JUndefined)\<rparr>"

section \<open>Basic facts\<close>

lemma ascii_Nil [simp]: "ascii [] = []"
  by (simp add: ascii_def)

lemma ascii_eq_Nil [simp]: "ascii s = [] \<longleftrightarrow> s = []"
  by (simp add: ascii_def)

lemma proto_name_inherited: "proto_name \<in> set Object_prototype_names"
  by (simp add: proto_name_def Object_prototype_names_def)

lemma not_inherited_not_proto: "k \<notin> set Object_prototype_names \<Longrightarrow> k \<noteq> proto_name"
  using proto_name_inherited by auto

lemma worker_ai_neq_openai: "ascii ''openai'' \<noteq> ascii ''worker-ai''"
  by (simp add: ascii_def)

section \<open>Summary generation is best effort\<close>

lemma generateAISummary_disabled:
  "\<not> enabled config \<Longrightarrow> generateAISummary h env config content = ([], Inr JNull)"
  by (simp add: generateAISummary_def)

lemma generateAISummary_returns:
  "\<exists>v. snd (generateAISummary h env config content) = Inr v"
  by (simp add: generateAISummary_def Let_def case_prod_beta split: sum.splits)

lemma generateAISummary_catches_worker:
  assumes "enabled config" and "provider config = ascii ''worker-ai''"
    and "AI_run env (getWorkerAIModelId (model config))
           (summary_instruction @ truncatedContent content) = Inl e"
  shows "snd (generateAISummary h env config content) = Inr JNull"
  using assms by (simp add: generateAISummary_def executeWorkerAI_def Let_def)

lemma generateAISummary_catches_external:
  assumes "enabled config" and "provider config \<noteq> ascii ''worker-ai''"
    and "snd (executeExternalAI h config (truncatedContent content)) = Inl e"
  shows "snd (generateAISummary h env config content) = Inr JNull"
  using assms by (simp add: generateAISummary_def Let_def case_prod_beta)

text \<open>
  Claim C6. Summary generation never hands an error to its caller: it always returns a
  value. With \<open>enabled\<close> false it returns \<open>null\<close> at once and makes no call to either
  provider, whatever the other fields hold. With \<open>enabled\<close> true, when the in-runtime
  call rejects (provider \<open>worker-ai\<close>) or the external client throws (any other
  provider), the error is caught and the result is \<open>null\<close>.
\<close>

theorem generateAISummary_never_throws:
  "(\<exists>v. snd (generateAISummary h env config content) = Inr v)
   \<and> (\<not> enabled config \<longrightarrow> generateAISummary h env config content = ([], Inr JNull))
   \<and> (enabled config \<and> provider config = ascii ''worker-ai''
        \<and> AI_run env (getWorkerAIModelId (model config))
             (summary_instruction @ truncatedContent content) = Inl e
      \<longrightarrow> snd (generateAISummary h env config content) = Inr JNull)
   \<and> (enabled config \<and> provider config \<noteq> ascii ''worker-ai''
        \<and> snd (executeExternalAI h config (truncatedContent content)) = Inl e
      \<longrightarrow> snd (generateAISummary h env config content) = Inr JNull)"
  using generateAISummary_returns generateAISummary_disabled
    generateAISummary_catches_worker generateAISummary_catches_external
  by blast

theorem generateAISummary_never_throws_witness:
  "generateAISummary (answering_host 200 []) rejecting_env
     (demo_config False ''openai'' ''sk-1'' []) (ascii ''text'') = ([], Inr JNull)
   \<and> snd (generateAISummary (answering_host 200 []) rejecting_env
       (demo_config True ''worker-ai'' [] []) (ascii ''text'')) = Inr JNull
   \<and> snd (generateAISummary (answering_host 200 []) rejecting_env
       (demo_config True ''openai'' [] []) (ascii ''text'')) = Inr JNull"
proof -
  let ?h = "answering_host 200 []"
  have off: "\<not> enabled (demo_config False ''openai'' ''sk-1'' [])"
    by (simp add: demo_config_def)
  have w: "enabled (demo_config True ''worker-ai'' [] [])
      \<and> provider (demo_config True ''worker-ai'' [] []) = ascii ''worker-ai''
      \<and> AI_run rejecting_env (getWorkerAIModelId (model (demo_config True ''worker-ai'' [] [])))
          (summary_instruction @ truncatedContent (ascii ''text'')) = Inl (Error (ascii ''boom''))"
    by (simp add: demo_config_def rejecting_env_def)
  have x: "enabled (demo_config True ''openai'' [] [])
      \<and> provider (demo_config True ''openai'' [] []) \<noteq> ascii ''worker-ai''
      \<and> snd (executeExternalAI ?h (demo_config True ''openai'' [] [])
               (truncatedContent (ascii ''text'')))
          = Inl (Error (ascii ''API key not configured''))"
    by (simp add: demo_config_def executeExternalAI_def worker_ai_neq_openai)
  show ?thesis
    using off w x
      generateAISummary_never_throws [of ?h rejecting_env "demo_config False ''openai'' ''sk-1'' []"
        "ascii ''text''" "Error (ascii ''boom'')"]
      generateAISummary_never_throws [of ?h rejecting_env "demo_config True ''worker-ai'' [] []"
        "ascii ''text''" "Error (ascii ''boom'')"]
      generateAISummary_never_throws [of ?h rejecting_env "demo_config True ''openai'' [] []"
        "ascii ''text''" "Error (ascii ''API key not configured'')"]
    by blast
qed

section \<open>The Model Registry\<close>

lemma getWorkerAIModelId_known:
  "map_of WORKER_AI_MODELS a = Some v \<Longrightarrow> getWorkerAIModelId a = v"
  by (auto simp add: getWorkerAIModelId_def get_prop_def js_or_def WORKER_AI_MODELS_def
      ascii_def split: if_splits)

lemma getWorkerAIModelId_unknown:
  "map_of WORKER_AI_MODELS a = None \<Longrightarrow> a \<notin> set Object_prototype_names
   \<Longrightarrow> getWorkerAIModelId a = JStr a"
  by (simp add: getWorkerAIModelId_def get_prop_def js_or_def not_inherited_not_proto)

text \<open>
  Claim C9, at the input \<open>"constructor"\<close>. The name is no alias of the registry, yet
  the lookup finds the member every object literal inherits from \<open>Object.prototype\<close>;
  that member is truthy, so \<open>getWorkerAIModelId\<close> returns it, and not the string it was
  given.
\<close>

theorem getWorkerAIModelId_constructor:
  "map_of WORKER_AI_MODELS (ascii ''constructor'') = None
   \<and> getWorkerAIModelId (ascii ''constructor'') = JBuiltin (ascii ''constructor'')
   \<and> getWorkerAIModelId (ascii ''constructor'') \<noteq> JStr (ascii ''constructor'')"
  by (simp add: getWorkerAIModelId_def get_prop_def js_or_def WORKER_AI_MODELS_def
      Object_prototype_names_def proto_name_def ascii_def)

section \<open>Summary generation: what is dispatched\<close>

lemma length_truncatedContent:
  "length (truncatedContent content) \<le> maxContentLength + 3"
  by (simp add: truncatedContent_def ascii_def)

lemma truncatedContent_short:
  "length content \<le> maxContentLength \<Longrightarrow> truncatedContent content = content"
  by (simp add: truncatedContent_def)

lemma truncatedContent_long:
  "length content > maxContentLength
   \<Longrightarrow> truncatedContent content = take maxContentLength content @ ascii ''...''"
  by (simp add: truncatedContent_def)

lemma generateAISummary_worker_calls:
  "enabled config \<Longrightarrow> provider config = ascii ''worker-ai''
   \<Longrightarrow> fst (generateAISummary h env config content)
       = [AI_run_call (getWorkerAIModelId (model config))
            (summary_instruction @ truncatedContent content)]"
  by (simp add: generateAISummary_def executeWorkerAI_def Let_def)

lemma executeExternalAI_calls:
  "fst (executeExternalAI h config input) = []
   \<or> (\<exists>base. fst (executeExternalAI h config input)
         = [Fetch_call (chat_request h base (api_key config) (model config) input)])"
  by (auto simp add: executeExternalAI_def Let_def)

lemma generateAISummary_external_calls:
  "enabled config \<Longrightarrow> provider config \<noteq> ascii ''worker-ai''
   \<Longrightarrow> fst (generateAISummary h env config content)
       = fst (executeExternalAI h config (truncatedContent content))"
  by (simp add: generateAISummary_def Let_def case_prod_beta)

text \<open>
  Claim C1, at an enabled configuration with provider \<open>openai\<close>, key \<open>sk-1\<close>, no
  explicit URL, and the content \<open>text\<close>. The one request that leaves carries the
  content alone as the user message: the summarisation instruction, which the
  \<open>worker-ai\<close> branch puts in front of the content, is not part of it.
\<close>

theorem generateAISummary_external_bare_content:
  "fst (generateAISummary h env (demo_config True ''openai'' ''sk-1'' []) (ascii ''text''))
     = [Fetch_call (chat_request h (ascii ''https://api.openai.com/v1'') (ascii ''sk-1'')
          (ascii ''m'') (ascii ''text''))]
   \<and> ascii ''text'' \<noteq> summary_instruction @ truncatedContent (ascii ''text'')"
proof -
  have short: "truncatedContent (ascii ''text'') = ascii ''text''"
    by (simp add: truncatedContent_def maxContentLength_def ascii_def)
  have url: "get_prop AI_PROVIDER_URLS (ascii ''openai'') = JStr (ascii ''https://api.openai.com/v1'')"
    by (simp add: get_prop_def AI_PROVIDER_URLS_def)
  have key: "ascii ''sk-1'' \<noteq> []"
    by (simp add: ascii_def)
  have nonempty: "ascii ''https://api.openai.com/v1'' \<noteq> []"
    by (simp add: ascii_def)
  have "fst (generateAISummary h env (demo_config True ''openai'' ''sk-1'' []) (ascii ''text''))
     = [Fetch_call (chat_request h (ascii ''https://api.openai.com/v1'') (ascii ''sk-1'')
          (ascii ''m'') (ascii ''text''))]"
    by (simp add: generateAISummary_def demo_config_def worker_ai_neq_openai short
        executeExternalAI_def key url js_or_def nonempty Let_def)
  moreover have "ascii ''text'' \<noteq> summary_instruction @ truncatedContent (ascii ''text'')"
    by (simp add: short summary_instruction_def)
  ultimately show ?thesis by simp
qed

section \<open>The in-runtime client\<close>

lemma has_prop_own:
  "k \<notin> set Object_prototype_names \<Longrightarrow> has_prop kvs k \<longleftrightarrow> map_of kvs k \<noteq> None"
  by (simp add: has_prop_def)

lemma field_names_not_inherited:
  "ascii ''response'' \<notin> set Object_prototype_names"
  "ascii ''content'' \<notin> set Object_prototype_names"
  "ascii ''output'' \<notin> set Object_prototype_names"
  "ascii ''result'' \<notin> set Object_prototype_names"
  by (simp_all add: Object_prototype_names_def ascii_def)

lemma get_prop_own: "map_of kvs k = Some v \<Longrightarrow> get_prop kvs k = v"
  by (simp add: get_prop_def)

text \<open>
  Claim C3 as stated fails: the runtime answers with the object
  \<open>{response: null, content: "hi"}\<close>, the client returns \<open>null\<close>, not the string
  \<open>"hi"\<close> of the second field, although the runtime returned an object.
\<close>

theorem executeWorkerAI_null_field_counterexample:
  "snd (executeWorkerAI (answering_host 200 [])
          (answering_env (JObj [(ascii ''response'', JNull),
                                (ascii ''content'', JStr (ascii ''hi''))]))
          (JStr (ascii ''m'')) (ascii ''q'')) = Inr JNull
   \<and> snd (executeWorkerAI (answering_host 200 [])
          (answering_env (JObj [(ascii ''response'', JNull),
                                (ascii ''content'', JStr (ascii ''hi''))]))
          (JStr (ascii ''m'')) (ascii ''q'')) \<noteq> Inr (JStr (ascii ''hi''))"
  by (simp add: executeWorkerAI_def answering_env_def has_prop_def get_prop_def)

text \<open>
  Claim C3, amended. For every value the in-runtime inference call resolves to, the
  client makes that one call and returns: for an object, the value of the first of the
  fields \<open>response\<close>, \<open>content\<close>, \<open>output\<close>, \<open>result\<close> that is present, whatever
  that value is (a string or not, \<open>null\<close> included); for an object with none of the four
  fields, and for an array, the JSON serialisation of the value; for a string, the string;
  and \<open>null\<close> for every other value (\<open>undefined\<close>, \<open>null\<close>, a boolean, a number, a
  function).
\<close>

theorem executeWorkerAI_normalisation:
  assumes "AI_run env modelId input = Inr r"
  shows "fst (executeWorkerAI h env modelId input) = [AI_run_call modelId input]
    \<and> (r = JObj kvs \<and> map_of kvs (ascii ''response'') = Some v
         \<longrightarrow> snd (executeWorkerAI h env modelId input) = Inr v)
    \<and> (r = JObj kvs \<and> map_of kvs (ascii ''response'') = None
           \<and> map_of kvs (ascii ''content'') = Some v
         \<longrightarrow> snd (executeWorkerAI h env modelId input) = Inr v)
    \<and> (r = JObj kvs \<and> map_of kvs (ascii ''response'') = None
           \<and> map_of kvs (ascii ''content'') = None \<and> map_of kvs (ascii ''output'') = Some v
         \<longrightarrow> snd (executeWorkerAI h env modelId input) = Inr v)
    \<and> (r = JObj kvs \<and> map_of kvs (ascii ''response'') = None
           \<and> map_of kvs (ascii ''content'') = None \<and> map_of kvs (ascii ''output'') = None
           \<and> map_of kvs (ascii ''result'') = Some v
         \<longrightarrow> snd (executeWorkerAI h env modelId input) = Inr v)
    \<and> (r = JObj kvs \<and> map_of kvs (ascii ''response'') = None
           \<and> map_of kvs (ascii ''content'') = None \<and> map_of kvs (ascii ''output'') = None
           \<and> map_of kvs (ascii ''result'') = None
         \<longrightarrow> snd (executeWorkerAI h env modelId input) = Inr (JStr (JSON_stringify h r)))
    \<and> (r = JArr xs
         \<longrightarrow> snd (executeWorkerAI h env modelId input) = Inr (JStr (JSON_stringify h r)))
    \<and> (r = JStr s \<longrightarrow> snd (executeWorkerAI h env modelId input) = Inr (JStr s))
    \<and> (r = JUndefined \<or> r = JNull \<or> r = JBool b \<or> r = JNum n \<or> r = JBuiltin f
         \<longrightarrow> snd (executeWorkerAI h env modelId input) = Inr JNull)"
  using assms
  by (auto simp add: executeWorkerAI_def has_prop_own field_names_not_inherited get_prop_own)

theorem executeWorkerAI_normalisation_witness:
  "snd (executeWorkerAI (answering_host 200 [])
          (answering_env (JObj [(ascii ''response'', JStr (ascii ''a''))]))
          (JStr (ascii ''m'')) (ascii ''q'')) = Inr (JStr (ascii ''a''))
   \<and> snd (executeWorkerAI (answering_host 200 [])
          (answering_env (JObj [(ascii ''content'', JNum 7), (ascii ''result'', JStr (ascii ''b''))]))
          (JStr (ascii ''m'')) (ascii ''q'')) = Inr (JNum 7)
   \<and> snd (executeWorkerAI (answering_host 200 [])
          (answering_env (JObj [(ascii ''output'', JStr (ascii ''c''))]))
          (JStr (ascii ''m'')) (ascii ''q'')) = Inr (JStr (ascii ''c''))
   \<and> snd (executeWorkerAI (answering_host 200 [])
          (answering_env (JObj [(ascii ''result'', JStr (ascii ''d''))]))
          (JStr (ascii ''m'')) (ascii ''q'')) = Inr (JStr (ascii ''d''))
   \<and> snd (executeWorkerAI (answering_host 200 [])
          (answering_env (JObj [(ascii ''text'', JStr (ascii ''e''))]))
          (JStr (ascii ''m'')) (ascii ''q'')) = Inr (JStr (ascii ''{}''))
   \<and> snd (executeWorkerAI (answering_host 200 [])
          (answering_env (JArr [])) (JStr (ascii ''m'')) (ascii ''q'')) = Inr (JStr (ascii ''{}''))
   \<and> snd (executeWorkerAI (answering_host 200 [])
          (answering_env (JStr (ascii ''f''))) (JStr (ascii ''m'')) (ascii ''q''))
       = Inr (JStr (ascii ''f''))
   \<and> snd (executeWorkerAI (answering_host 200 [])
          (answering_env JNull) (JStr (ascii ''m'')) (ascii ''q'')) = Inr JNull"
proof -
  let ?h = "answering_host 200 []"
  let ?m = "JStr (ascii ''m'')"
  let ?q = "ascii ''q''"
  have run: "AI_run (answering_env r) ?m ?q = Inr r" for r
    by (simp add: answering_env_def)
  have str: "JSON_stringify ?h r = ascii ''{}''" for r
    by (simp add: answering_host_def)
  have neq: "ascii ''content'' \<noteq> ascii ''response''" "ascii ''output'' \<noteq> ascii ''response''"
    "ascii ''output'' \<noteq> ascii ''content''" "ascii ''result'' \<noteq> ascii ''response''"
    "ascii ''result'' \<noteq> ascii ''content''" "ascii ''result'' \<noteq> ascii ''output''"
    "ascii ''text'' \<noteq> ascii ''response''" "ascii ''text'' \<noteq> ascii ''content''"
    "ascii ''text'' \<noteq> ascii ''output''" "ascii ''text'' \<noteq> ascii ''result''"
    by (simp_all add: ascii_def)
  note t = executeWorkerAI_normalisation [OF run, where h = ?h]
  have c1: "snd (executeWorkerAI ?h (answering_env (JObj [(ascii ''response'', JStr (ascii ''a''))]))
      ?m ?q) = Inr (JStr (ascii ''a''))"
    using t [where r = "JObj [(ascii ''response'', JStr (ascii ''a''))]"
        and kvs = "[(ascii ''response'', JStr (ascii ''a''))]" and v = "JStr (ascii ''a'')"]
    by simp
  have c2: "snd (executeWorkerAI ?h
      (answering_env (JObj [(ascii ''content'', JNum 7), (ascii ''result'', JStr (ascii ''b''))]))
      ?m ?q) = Inr (JNum 7)"
    using t [where r = "JObj [(ascii ''content'', JNum 7), (ascii ''result'', JStr (ascii ''b''))]"
        and kvs = "[(ascii ''content'', JNum 7), (ascii ''result'', JStr (ascii ''b''))]"
        and v = "JNum 7"]
    by (simp add: neq neq [symmetric])
  have c3: "snd (executeWorkerAI ?h (answering_env (JObj [(ascii ''output'', JStr (ascii ''c''))]))
      ?m ?q) = Inr (JStr (ascii ''c''))"
    using t [where r = "JObj [(ascii ''output'', JStr (ascii ''c''))]"
        and kvs = "[(ascii ''output'', JStr (ascii ''c''))]" and v = "JStr (ascii ''c'')"]
    by (simp add: neq neq [symmetric])
  have c4: "snd (executeWorkerAI ?h (answering_env (JObj [(ascii ''result'', JStr (ascii ''d''))]))
      ?m ?q) = Inr (JStr (ascii ''d''))"
    using t [where r = "JObj [(ascii ''result'', JStr (ascii ''d''))]"
        and kvs = "[(ascii ''result'', JStr (ascii ''d''))]" and v = "JStr (ascii ''d'')"]
    by (simp add: neq neq [symmetric])
  have c5: "snd (executeWorkerAI ?h (answering_env (JObj [(ascii ''text'', JStr (ascii ''e''))]))
      ?m ?q) = Inr (JStr (ascii ''{}''))"
    using t [where r = "JObj [(ascii ''text'', JStr (ascii ''e''))]"
        and kvs = "[(ascii ''text'', JStr (ascii ''e''))]"]
    by (simp add: neq neq [symmetric] str)
  have c6: "snd (executeWorkerAI ?h (answering_env (JArr [])) ?m ?q) = Inr (JStr (ascii ''{}''))"
    using t [where r = "JArr []" and xs = "[]"] by (simp add: str)
  have c7: "snd (executeWorkerAI ?h (answering_env (JStr (ascii ''f''))) ?m ?q)
      = Inr (JStr (ascii ''f''))"
    using t [where r = "JStr (ascii ''f'')" and s = "ascii ''f''"] by simp
  have c8: "snd (executeWorkerAI ?h (answering_env JNull) ?m ?q) = Inr JNull"
    using t [where r = JNull] by simp
  show ?thesis
    using c1 c2 c3 c4 c5 c6 c7 c8 by simp
qed

section \<open>The external client: configuration errors\<close>

text \<open>
  Claim C4 as stated fails where both preconditions are violated: with an empty key, no
  explicit URL and the provider \<open>foo\<close>, which has no default URL, the client throws
  \<open>API key not configured\<close>, not \<open>API URL not configured\<close>: the key is checked first.
\<close>

theorem executeExternalAI_key_first_counterexample:
  "api_url (demo_config True ''foo'' [] []) = []
   \<and> get_prop AI_PROVIDER_URLS (provider (demo_config True ''foo'' [] [])) = JUndefined
   \<and> executeExternalAI (answering_host 200 []) (demo_config True ''foo'' [] []) (ascii ''q'')
       = ([], Inl (Error (ascii ''API key not configured'')))
   \<and> snd (executeExternalAI (answering_host 200 []) (demo_config True ''foo'' [] []) (ascii ''q''))
       \<noteq> Inl (Error (ascii ''API URL not configured''))"
  by (simp add: demo_config_def executeExternalAI_def get_prop_def AI_PROVIDER_URLS_def
      Object_prototype_names_def proto_name_def ascii_def)

text \<open>
  Claim C4, amended. The external client fails before it issues any request: with
  \<open>API key not configured\<close> whenever \<open>api_key\<close> is empty; and with
  \<open>API URL not configured\<close> whenever \<open>api_key\<close> is not empty, \<open>api_url\<close> is empty
  and the provider is neither a key of the default-URL table nor one of the names an
  object literal inherits.
\<close>

theorem executeExternalAI_configuration_errors:
  "(api_key config = []
      \<longrightarrow> executeExternalAI h config input = ([], Inl (Error (ascii ''API key not configured''))))
   \<and> (api_key config \<noteq> [] \<and> api_url config = []
        \<and> map_of AI_PROVIDER_URLS (provider config) = None
        \<and> provider config \<notin> set Object_prototype_names
      \<longrightarrow> executeExternalAI h config input = ([], Inl (Error (ascii ''API URL not configured''))))"
  by (simp add: executeExternalAI_def get_prop_def js_or_def not_inherited_not_proto)

theorem executeExternalAI_configuration_errors_witness:
  "executeExternalAI (answering_host 200 []) (demo_config True ''openai'' [] []) (ascii ''q'')
     = ([], Inl (Error (ascii ''API key not configured'')))
   \<and> executeExternalAI (answering_host 200 []) (demo_config True ''foo'' ''sk-1'' []) (ascii ''q'')
     = ([], Inl (Error (ascii ''API URL not configured'')))"
proof -
  have a: "api_key (demo_config True ''openai'' [] []) = []"
    by (simp add: demo_config_def)
  have b: "api_key (demo_config True ''foo'' ''sk-1'' []) \<noteq> []
      \<and> api_url (demo_config True ''foo'' ''sk-1'' []) = []
      \<and> map_of AI_PROVIDER_URLS (provider (demo_config True ''foo'' ''sk-1'' [])) = None
      \<and> provider (demo_config True ''foo'' ''sk-1'' []) \<notin> set Object_prototype_names"
    by (simp add: demo_config_def AI_PROVIDER_URLS_def Object_prototype_names_def ascii_def)
  show ?thesis
    using a b
      executeExternalAI_configuration_errors [of "demo_config True ''openai'' [] []"
        "answering_host 200 []" "ascii ''q''"]
      executeExternalAI_configuration_errors [of "demo_config True ''foo'' ''sk-1'' []"
        "answering_host 200 []" "ascii ''q''"]
    by blast
qed

section \<open>The external client and the classifier: HTTP 401\<close>

lemma decimal_401: "decimal 401 = ascii ''401''"
  by (simp add: decimal.simps [of 401] decimal.simps [of 40] decimal.simps [of 4] ascii_def)

lemma api_error_401_message:
  "ascii ''API error '' @ decimal 401 @ ascii '': '' @ body = ascii ''API error 401: '' @ body"
  by (simp add: decimal_401 ascii_def)

lemma api_error_401_fetch_failed:
  "js_includes (ascii ''API error 401: '' @ body) (ascii ''fetch failed'')
     = js_includes body (ascii ''fetch failed'')"
  by (simp add: ascii_def)

lemma api_error_401_NetworkError:
  "js_includes (ascii ''API error 401: '' @ body) (ascii ''NetworkError'')
     = js_includes body (ascii ''NetworkError'')"
  by (simp add: ascii_def)

lemma api_error_401_includes_401:
  "js_includes (ascii ''API error 401: '' @ body) (ascii ''401'')"
  by (simp add: ascii_def)

lemma api_error_401_nonempty: "ascii ''API error 401: '' @ body \<noteq> []"
  by (simp add: ascii_def)

lemma processAIError_401:
  assumes "\<not> js_includes body (ascii ''fetch failed'')"
    and "\<not> js_includes body (ascii ''NetworkError'')"
  shows "processAIError (Error (ascii ''API error 401: '' @ body)) mdl prov
     = \<lparr>success = False, response = None,
        error = Some (ascii ''Authentication failed: Invalid API key''),
        details = Some (ascii ''Please check your API key is correct and not expired.'')\<rparr>"
proof -
  have d: "ascii ''Please check your API key is correct and not expired.'' \<noteq> []"
    by (simp add: ascii_def)
  show ?thesis
    using assms
    by (simp add: processAIError_def Let_def api_error_401_fetch_failed
        api_error_401_NetworkError api_error_401_includes_401 api_error_401_nonempty d)
qed

lemma openai_url_truthy:
  "truthy (js_or (JStr u) (get_prop AI_PROVIDER_URLS (ascii ''openai'')))"
  by (simp add: js_or_def get_prop_def AI_PROVIDER_URLS_def ascii_def)

lemma executeExternalAI_401:
  assumes "provider config = ascii ''openai''" and "api_key config \<noteq> []"
    and "\<forall>req. fetch h req = Inr r" and "resp_status r = 401" and "resp_text r = Inr body"
  shows "snd (executeExternalAI h config input) = Inl (Error (ascii ''API error 401: '' @ body))"
  using assms openai_url_truthy [of "api_url config"]
  by (simp add: executeExternalAI_def Let_def resp_ok_def api_error_401_message)

text \<open>
  Claim C5 as stated fails: the transport answers 401 with the body \<open>NetworkError\<close>.
  The client's message embeds the status and the body, but the classifier finds
  \<open>NetworkError\<close> in it first, and the test invocation reports a network error.
\<close>

theorem testAIModel_401_body_counterexample:
  "snd (executeExternalAI (answering_host 401 (ascii ''NetworkError''))
          (demo_config True ''openai'' ''sk-1'' []) (ascii ''q''))
     = Inl (Error (ascii ''API error 401: NetworkError''))
   \<and> error (snd (testAIModel (answering_host 401 (ascii ''NetworkError'')) rejecting_env
          (demo_test_config ''openai'' ''sk-1'') (ascii ''q'')))
     = Some (ascii ''Network error: Unable to connect to AI service'')
   \<and> error (snd (testAIModel (answering_host 401 (ascii ''NetworkError'')) rejecting_env
          (demo_test_config ''openai'' ''sk-1'') (ascii ''q'')))
     \<noteq> Some (ascii ''Authentication failed: Invalid API key'')"
proof -
  let ?h = "answering_host 401 (ascii ''NetworkError'')"
  have f: "\<forall>req. fetch ?h req = Inr \<lparr>resp_status = 401, resp_text = Inr (ascii ''NetworkError''),
      resp_json = Inl (Error (ascii ''Unexpected token''))\<rparr>"
    by (simp add: answering_host_def)
  have m: "ascii ''API error 401: '' @ ascii ''NetworkError'' = ascii ''API error 401: NetworkError''"
    by (simp add: ascii_def)
  have x: "snd (executeExternalAI ?h (demo_config True ''openai'' ''sk-1'' []) (ascii ''q''))
     = Inl (Error (ascii ''API error 401: NetworkError''))"
    using executeExternalAI_401 [OF _ _ f, of "demo_config True ''openai'' ''sk-1'' []"
        "ascii ''NetworkError''" "ascii ''q''"]
    by (simp add: demo_config_def m)
  have y: "snd (executeExternalAI ?h
       \<lparr>provider = ascii ''openai'', model = ascii ''m'', api_key = ascii ''sk-1'', api_url = []\<rparr>
       (ascii ''q'')) = Inl (Error (ascii ''API error 401: NetworkError''))"
    using executeExternalAI_401 [OF _ _ f, of
        "\<lparr>provider = ascii ''openai'', model = ascii ''m'', api_key = ascii ''sk-1'', api_url = []\<rparr>"
        "ascii ''NetworkError''" "ascii ''q''"]
    by (simp add: m)
  have inc: "js_includes (ascii ''API error 401: NetworkError'') (ascii ''NetworkError'')"
    by (simp add: ascii_def)
  have p: "error (processAIError (Error (ascii ''API error 401: NetworkError'')) mdl prov)
      = Some (ascii ''Network error: Unable to connect to AI service'')" for mdl prov
    by (simp add: processAIError_def Let_def inc)
  have z: "error (snd (testAIModel ?h rejecting_env (demo_test_config ''openai'' ''sk-1'') (ascii ''q'')))
     = Some (ascii ''Network error: Unable to connect to AI service'')"
    using y by (simp add: testAIModel_def demo_test_config_def worker_ai_neq_openai opt_or_def
        case_prod_beta p)
  have n: "ascii ''Network error: Unable to connect to AI service''
      \<noteq> ascii ''Authentication failed: Invalid API key''"
    by (simp add: ascii_def)
  show ?thesis using x z n by simp
qed

text \<open>
  Claim C5, amended. For every test invocation with provider \<open>openai\<close>, a non-empty
  key and a transport that answers with status 401 and a body that contains neither
  \<open>fetch failed\<close> nor \<open>NetworkError\<close>: the external client throws an error whose
  message is \<open>API error 401: \<close> followed by the raw body, and the test invocation
  returns the classified result with \<open>success\<close> false and the error
  \<open>Authentication failed: Invalid API key\<close>.
\<close>

theorem testAIModel_401_classified:
  assumes "t_provider config = ascii ''openai''"
    and "t_api_key config = Some key" and "key \<noteq> []"
    and "\<forall>req. fetch h req = Inr r" and "resp_status r = 401" and "resp_text r = Inr body"
    and "\<not> js_includes body (ascii ''fetch failed'')"
    and "\<not> js_includes body (ascii ''NetworkError'')"
  shows "snd (executeExternalAI h
            \<lparr>provider = t_provider config, model = t_model config,
             api_key = opt_or (t_api_key config) [], api_url = opt_or (t_api_url config) []\<rparr>
            testPrompt)
       = Inl (Error (ascii ''API error '' @ decimal 401 @ ascii '': '' @ body))
     \<and> snd (testAIModel h env config testPrompt)
       = \<lparr>success = False, response = None,
          error = Some (ascii ''Authentication failed: Invalid API key''),
          details = Some (ascii ''Please check your API key is correct and not expired.'')\<rparr>"
proof -
  let ?c = "\<lparr>provider = t_provider config, model = t_model config,
     api_key = opt_or (t_api_key config) [], api_url = opt_or (t_api_url config) []\<rparr>"
  have x: "snd (executeExternalAI h ?c testPrompt) = Inl (Error (ascii ''API error 401: '' @ body))"
    using assms(1-6) executeExternalAI_401 [of ?c h r body testPrompt]
    by (simp add: opt_or_def)
  have notworker: "t_provider config \<noteq> ascii ''worker-ai''"
    using assms(1) worker_ai_neq_openai by simp
  have "snd (testAIModel h env config testPrompt)
      = processAIError (Error (ascii ''API error 401: '' @ body)) (t_model config) (t_provider config)"
    using x notworker by (simp add: testAIModel_def case_prod_beta)
  with x show ?thesis
    using processAIError_401 [OF assms(7,8)] by (simp add: api_error_401_message)
qed

theorem testAIModel_401_classified_witness:
  "snd (testAIModel (answering_host 401 (ascii ''bad key'')) rejecting_env
          (demo_test_config ''openai'' ''sk-1'') (ascii ''q''))
     = \<lparr>success = False, response = None,
        error = Some (ascii ''Authentication failed: Invalid API key''),
        details = Some (ascii ''Please check your API key is correct and not expired.'')\<rparr>"
proof -
  let ?h = "answering_host 401 (ascii ''bad key'')"
  let ?r = "\<lparr>resp_status = 401, resp_text = Inr (ascii ''bad key''),
      resp_json = Inl (Error (ascii ''Unexpected token''))\<rparr>"
  have f: "\<forall>req. fetch ?h req = Inr ?r"
    by (simp add: answering_host_def)
  have c: "t_provider (demo_test_config ''openai'' ''sk-1'') = ascii ''openai''"
    "t_api_key (demo_test_config ''openai'' ''sk-1'') = Some (ascii ''sk-1'')"
    "ascii ''sk-1'' \<noteq> []"
    by (simp_all add: demo_test_config_def)
  have r: "resp_status ?r = 401" "resp_text ?r = Inr (ascii ''bad key'')"
    by simp_all
  have b: "\<not> js_includes (ascii ''bad key'') (ascii ''fetch failed'')"
    "\<not> js_includes (ascii ''bad key'') (ascii ''NetworkError'')"
    by (simp_all add: ascii_def)
  show ?thesis
    using testAIModel_401_classified [OF c f r b, where env = rejecting_env
        and testPrompt = "ascii ''q''"]
    by simp
qed


section \<open>The override configuration of the test invocation\<close>

text \<open>
  Claim C2 as stated fails for \<open>provider\<close> (and \<open>model\<close>): the caller supplies the
  empty string, which is not \<open>undefined\<close>, and the stored provider \<open>openai\<close> is used
  all the same.
\<close>

theorem testConfig_empty_provider_counterexample:
  "t_provider (testConfig
       \<lparr>b_provider = Some [], b_model = None, b_api_url = None, b_api_key = None,
        b_testPrompt = None\<rparr>
       (demo_config True ''openai'' ''sk-1'' [])) = ascii ''openai''
   \<and> t_provider (testConfig
       \<lparr>b_provider = Some [], b_model = None, b_api_url = None, b_api_key = None,
        b_testPrompt = None\<rparr>
       (demo_config True ''openai'' ''sk-1'' [])) \<noteq> []"
  by (simp add: testConfig_def opt_or_def demo_config_def)

text \<open>
  Claim C2, amended. The override configuration is built field by field over the stored
  one. For \<open>api_url\<close> and \<open>api_key\<close>, a caller-supplied value that is not \<open>undefined\<close>
  wins, the empty string included, and otherwise the stored value is used. For
  \<open>provider\<close> and \<open>model\<close>, a caller-supplied value wins when it is not empty, and the
  stored value is used when the caller supplies none or the empty string.
\<close>

theorem testConfig_overrides:
  "(b_api_url body = Some u \<longrightarrow> t_api_url (testConfig body config) = Some u)
   \<and> (b_api_url body = None \<longrightarrow> t_api_url (testConfig body config) = Some (api_url config))
   \<and> (b_api_key body = Some k \<longrightarrow> t_api_key (testConfig body config) = Some k)
   \<and> (b_api_key body = None \<longrightarrow> t_api_key (testConfig body config) = Some (api_key config))
   \<and> (b_provider body = Some p \<and> p \<noteq> [] \<longrightarrow> t_provider (testConfig body config) = p)
   \<and> (b_provider body = None \<or> b_provider body = Some []
        \<longrightarrow> t_provider (testConfig body config) = provider config)
   \<and> (b_model body = Some m \<and> m \<noteq> [] \<longrightarrow> t_model (testConfig body config) = m)
   \<and> (b_model body = None \<or> b_model body = Some []
        \<longrightarrow> t_model (testConfig body config) = model config)"
  by (auto simp add: testConfig_def opt_or_def)

theorem testConfig_overrides_witness:
  "testConfig
     \<lparr>b_provider = Some (ascii ''claude''), b_model = Some [], b_api_url = Some [],
      b_api_key = None, b_testPrompt = None\<rparr>
     (demo_config True ''openai'' ''sk-1'' ''http://u'')
   = \<lparr>t_provider = ascii ''claude'', t_model = ascii ''m'', t_api_key = Some (ascii ''sk-1''),
      t_api_url = Some []\<rparr>
   \<and> testConfig
     \<lparr>b_provider = None, b_model = Some (ascii ''gpt''), b_api_url = None,
      b_api_key = Some [], b_testPrompt = None\<rparr>
     (demo_config True ''openai'' ''sk-1'' ''http://u'')
   = \<lparr>t_provider = ascii ''openai'', t_model = ascii ''gpt'', t_api_key = Some [],
      t_api_url = Some (ascii ''http://u'')\<rparr>"
proof -
  let ?b1 = "\<lparr>b_provider = Some (ascii ''claude''), b_model = Some [], b_api_url = Some [],
      b_api_key = None, b_testPrompt = None\<rparr>"
  let ?b2 = "\<lparr>b_provider = None, b_model = Some (ascii ''gpt''), b_api_url = None,
      b_api_key = Some [], b_testPrompt = None\<rparr>"
  let ?c = "demo_config True ''openai'' ''sk-1'' ''http://u''"
  have c: "provider ?c = ascii ''openai''" "model ?c = ascii ''m''"
    "api_key ?c = ascii ''sk-1''" "api_url ?c = ascii ''http://u''"
    by (simp_all add: demo_config_def)
  have n: "ascii ''claude'' \<noteq> []" "ascii ''gpt'' \<noteq> []"
    by simp_all
  have r1: "t_provider (testConfig ?b1 ?c) = ascii ''claude''
      \<and> t_model (testConfig ?b1 ?c) = ascii ''m''
      \<and> t_api_key (testConfig ?b1 ?c) = Some (ascii ''sk-1'')
      \<and> t_api_url (testConfig ?b1 ?c) = Some []"
    using testConfig_overrides [of ?b1 "[]" ?c "[]" "ascii ''claude''" "[]"] c n
    by simp
  have r2: "t_provider (testConfig ?b2 ?c) = ascii ''openai''
      \<and> t_model (testConfig ?b2 ?c) = ascii ''gpt''
      \<and> t_api_key (testConfig ?b2 ?c) = Some []
      \<and> t_api_url (testConfig ?b2 ?c) = Some (ascii ''http://u'')"
    using testConfig_overrides [of ?b2 "[]" ?c "[]" "[]" "ascii ''gpt''"] c n
    by simp
  have eq: "x = \<lparr>t_provider = a, t_model = b, t_api_key = c, t_api_url = d\<rparr>"
    if "t_provider x = a \<and> t_model x = b \<and> t_api_key x = c \<and> t_api_url x = d"
    for x :: test_config and a b c d
    using that by (cases x) simp
  show ?thesis
    using eq [OF r1] eq [OF r2] by simp
qed

section \<open>Own properties\<close>

lemma map_of_obj_put:
  "map_of (obj_put r k v) k' = (if k' = k then Some v else map_of r k')"
  by (induction r) auto

lemma keys_obj_put:
  "fst ` set (obj_put r k v) = insert k (fst ` set r)"
  by (induction r) force+

lemma distinct_obj_put:
  "distinct (map fst r) \<Longrightarrow> distinct (map fst (obj_put r k v))"
  by (induction r) (auto simp add: keys_obj_put)

lemma map_of_obj_assign:
  "k \<noteq> proto_name \<Longrightarrow> map_of (obj_assign r k v) k' = (if k' = k then Some v else map_of r k')"
  by (simp add: obj_assign_def map_of_obj_put)

lemma map_of_obj_assign_other:
  "k' \<noteq> k \<Longrightarrow> map_of (obj_assign r k v) k' = map_of r k'"
  by (simp add: obj_assign_def map_of_obj_put)

lemma distinct_obj_assign:
  "distinct (map fst r) \<Longrightarrow> distinct (map fst (obj_assign r k v))"
  by (simp add: obj_assign_def distinct_obj_put)

lemma distinct_foldl_obj_put:
  "distinct (map fst acc)
   \<Longrightarrow> distinct (map fst (foldl (\<lambda>obj (k, v). obj_put obj k v) acc entries))"
  by (induction entries arbitrary: acc) (auto simp add: distinct_obj_put)

lemma distinct_Object_fromEntries: "distinct (map fst (Object_fromEntries entries))"
  by (simp add: Object_fromEntries_def distinct_foldl_obj_put)

lemma get_prop_not_inherited:
  "k \<notin> set Object_prototype_names
   \<Longrightarrow> get_prop r k = (case map_of r k of Some v \<Rightarrow> v | None \<Rightarrow> JUndefined)"
  by (simp add: get_prop_def not_inherited_not_proto)

section \<open>Environment defaults of the client configuration\<close>

text \<open>A stored value that counts as unset: absent, \<open>undefined\<close>, or the empty string.\<close>

lemma env_defaults_loop_other:
  "k \<notin> fst ` set ds \<Longrightarrow> map_of (env_defaults_loop env ds r) k = map_of r k"
proof (induction ds arbitrary: r)
  case Nil
  then show ?case by simp
next
  case (Cons d ds)
  obtain ck ek where d: "d = (ck, ek)" by (cases d)
  from Cons.prems d have "k \<noteq> ck" and "k \<notin> fst ` set ds" by auto
  then show ?case
    using Cons.IH by (simp add: d Let_def map_of_obj_assign_other)
qed

lemma env_defaults_loop_key:
  assumes "distinct (map fst ds)" and "(k, e) \<in> set ds"
    and "\<forall>k' \<in> fst ` set ds. k' \<notin> set Object_prototype_names"
  shows "map_of (env_defaults_loop env ds r) k
     = (if (get_prop r k = JUndefined \<or> get_prop r k = JStr []) \<and> truthy (vars env e)
        then Some (vars env e) else map_of r k)"
  using assms
proof (induction ds arbitrary: r)
  case Nil
  then show ?case by simp
next
  case (Cons d ds)
  obtain ck ek where d: "d = (ck, ek)" by (cases d)
  show ?case
  proof (cases "k = ck")
    case True
    with Cons.prems d have e: "e = ek" and notin: "ck \<notin> fst ` set ds"
      by (auto simp add: rev_image_eqI)
    have np: "ck \<noteq> proto_name"
      using Cons.prems(3) d proto_name_inherited by auto
    show ?thesis
      using True e
      by (simp add: d env_defaults_loop_other [OF notin] Let_def map_of_obj_assign [OF np])
  next
    case False
    with Cons.prems d have mem: "(k, e) \<in> set ds" and dist: "distinct (map fst ds)"
      and inh: "\<forall>k' \<in> fst ` set ds. k' \<notin> set Object_prototype_names"
      by auto
    have kinh: "k \<notin> set Object_prototype_names"
      using mem inh by force
    have same: "get_prop (obj_assign r ck v) k = get_prop r k" for v
      using False by (simp add: get_prop_not_inherited [OF kinh] map_of_obj_assign_other)
    show ?thesis
      using False Cons.IH [OF dist mem inh]
      by (simp add: d Let_def same map_of_obj_assign_other)
  qed
qed

lemma defaults_table_distinct: "distinct (map fst CLIENT_CONFIG_ENV_DEFAULTS)"
  by (simp add: CLIENT_CONFIG_ENV_DEFAULTS_def ascii_def)

lemma defaults_table_not_inherited:
  "\<forall>k' \<in> fst ` set CLIENT_CONFIG_ENV_DEFAULTS. k' \<notin> set Object_prototype_names"
  by (simp add: CLIENT_CONFIG_ENV_DEFAULTS_def Object_prototype_names_def ascii_def)

lemma page_size_in_table:
  "(ascii ''site.page_size'', ascii ''PAGE_SIZE'') \<in> set CLIENT_CONFIG_ENV_DEFAULTS"
  by (simp add: CLIENT_CONFIG_ENV_DEFAULTS_def)

lemma page_size_not_proto: "ascii ''site.page_size'' \<noteq> proto_name"
  by (simp add: proto_name_def ascii_def)

lemma getClientConfigWithDefaults_lookup:
  "map_of (getClientConfigWithDefaults all_entries env) k
     = (let r = env_defaults_loop env CLIENT_CONFIG_ENV_DEFAULTS (Object_fromEntries all_entries)
        in if k = ascii ''site.page_size''
              \<and> (get_prop r (ascii ''site.page_size'') = JUndefined
                  \<or> get_prop r (ascii ''site.page_size'') = JStr [])
           then Some (JNum 5) else map_of r k)"
  by (simp add: getClientConfigWithDefaults_def Let_def map_of_obj_assign [OF page_size_not_proto])

text \<open>
  Claim C8. On a client-namespace read, for each of the keys \<open>site.name\<close>,
  \<open>site.description\<close>, \<open>site.avatar\<close>, \<open>site.page_size\<close> with its environment
  variable: when the stored value is absent, \<open>undefined\<close> or the empty string and the
  environment supplies a value (a truthy one), the result holds the environment's value;
  when the store holds any other value, the result holds the stored value, whatever the
  environment; and \<open>site.page_size\<close> is the number 5 when it is unset in the store and
  the environment supplies nothing for it.
\<close>

theorem getClientConfigWithDefaults_fallback:
  assumes "(configKey, envKey) \<in> set CLIENT_CONFIG_ENV_DEFAULTS"
  shows "((map_of (Object_fromEntries all_entries) configKey = None
            \<or> map_of (Object_fromEntries all_entries) configKey = Some JUndefined
            \<or> map_of (Object_fromEntries all_entries) configKey = Some (JStr []))
          \<and> truthy (vars env envKey)
        \<longrightarrow> map_of (getClientConfigWithDefaults all_entries env) configKey
              = Some (vars env envKey))
     \<and> (map_of (Object_fromEntries all_entries) configKey = Some v
          \<and> v \<noteq> JUndefined \<and> v \<noteq> JStr []
        \<longrightarrow> map_of (getClientConfigWithDefaults all_entries env) configKey = Some v)
     \<and> ((map_of (Object_fromEntries all_entries) (ascii ''site.page_size'') = None
            \<or> map_of (Object_fromEntries all_entries) (ascii ''site.page_size'') = Some JUndefined
            \<or> map_of (Object_fromEntries all_entries) (ascii ''site.page_size'') = Some (JStr []))
          \<and> \<not> truthy (vars env (ascii ''PAGE_SIZE''))
        \<longrightarrow> map_of (getClientConfigWithDefaults all_entries env) (ascii ''site.page_size'')
              = Some (JNum 5))"
proof -
  let ?stored = "Object_fromEntries all_entries"
  let ?r = "env_defaults_loop env CLIENT_CONFIG_ENV_DEFAULTS ?stored"
  let ?page = "ascii ''site.page_size''"
  have gp: "get_prop x k = (case map_of x k of Some v \<Rightarrow> v | None \<Rightarrow> JUndefined)"
    if "(k, e) \<in> set CLIENT_CONFIG_ENV_DEFAULTS" for x k e
  proof -
    have "k \<notin> set Object_prototype_names"
      using that defaults_table_not_inherited by force
    then show ?thesis by (rule get_prop_not_inherited)
  qed
  have loop: "map_of ?r k
      = (if (get_prop ?stored k = JUndefined \<or> get_prop ?stored k = JStr []) \<and> truthy (vars env e)
         then Some (vars env e) else map_of ?stored k)"
    if "(k, e) \<in> set CLIENT_CONFIG_ENV_DEFAULTS" for k e
    using that
    by (rule env_defaults_loop_key [OF defaults_table_distinct _ defaults_table_not_inherited])
  note gpk = gp [OF assms] and gpp = gp [OF page_size_in_table]
  note final = getClientConfigWithDefaults_lookup [of all_entries env, unfolded Let_def]
  have a: "map_of (getClientConfigWithDefaults all_entries env) configKey = Some (vars env envKey)"
    if u: "map_of ?stored configKey = None \<or> map_of ?stored configKey = Some JUndefined
           \<or> map_of ?stored configKey = Some (JStr [])"
      and t: "truthy (vars env envKey)"
  proof -
    have un: "get_prop ?stored configKey = JUndefined \<or> get_prop ?stored configKey = JStr []"
      using u by (auto simp add: gpk)
    have r: "map_of ?r configKey = Some (vars env envKey)"
      using un t by (simp add: loop [OF assms])
    have ne: "vars env envKey \<noteq> JUndefined" "vars env envKey \<noteq> JStr []"
      using t by auto
    show ?thesis
    proof (cases "configKey = ?page")
      case True
      then have "get_prop ?r ?page = vars env envKey"
        using r by (simp add: gpp)
      with ne r True show ?thesis
        by (simp add: final)
    next
      case False
      with r show ?thesis by (simp add: final)
    qed
  qed
  have b: "map_of (getClientConfigWithDefaults all_entries env) configKey = Some v"
    if s: "map_of ?stored configKey = Some v" and ne: "v \<noteq> JUndefined" "v \<noteq> JStr []"
  proof -
    have "get_prop ?stored configKey = v"
      using s by (simp add: gpk)
    with ne s have r: "map_of ?r configKey = Some v"
      by (simp add: loop [OF assms])
    show ?thesis
    proof (cases "configKey = ?page")
      case True
      then have "get_prop ?r ?page = v"
        using r by (simp add: gpp)
      with ne r True show ?thesis
        by (simp add: final)
    next
      case False
      with r show ?thesis by (simp add: final)
    qed
  qed
  have c: "map_of (getClientConfigWithDefaults all_entries env) ?page = Some (JNum 5)"
    if u: "map_of ?stored ?page = None \<or> map_of ?stored ?page = Some JUndefined
           \<or> map_of ?stored ?page = Some (JStr [])"
      and t: "\<not> truthy (vars env (ascii ''PAGE_SIZE''))"
  proof -
    have r: "map_of ?r ?page = map_of ?stored ?page"
      using t by (simp add: loop [OF page_size_in_table])
    have "get_prop ?r ?page = JUndefined \<or> get_prop ?r ?page = JStr []"
      using u r by (auto simp add: gpp)
    then show ?thesis
      by (simp add: final)
  qed
  show ?thesis
    using a b c by blast
qed

theorem getClientConfigWithDefaults_fallback_witness:
  "map_of (getClientConfigWithDefaults [] acme_env) (ascii ''site.name'')
     = Some (JStr (ascii ''Acme''))
   \<and> map_of (getClientConfigWithDefaults [(ascii ''site.name'', JStr (ascii ''Mine''))] acme_env)
       (ascii ''site.name'') = Some (JStr (ascii ''Mine''))
   \<and> map_of (getClientConfigWithDefaults [] acme_env) (ascii ''site.page_size'') = Some (JNum 5)"
proof -
  have mem: "(ascii ''site.name'', ascii ''NAME'') \<in> set CLIENT_CONFIG_ENV_DEFAULTS"
    by (simp add: CLIENT_CONFIG_ENV_DEFAULTS_def)
  have empty: "map_of (Object_fromEntries []) k = None" for k
    by (simp add: Object_fromEntries_def)
  have stored: "map_of (Object_fromEntries [(ascii ''site.name'', JStr (ascii ''Mine''))])
      (ascii ''site.name'') = Some (JStr (ascii ''Mine''))"
    by (simp add: Object_fromEntries_def)
  have name: "vars acme_env (ascii ''NAME'') = JStr (ascii ''Acme'')"
    by (simp add: acme_env_def)
  have page: "vars acme_env (ascii ''PAGE_SIZE'') = JUndefined"
    by (simp add: acme_env_def ascii_def)
  have mine: "JStr (ascii ''Mine'') \<noteq> JUndefined \<and> JStr (ascii ''Mine'') \<noteq> JStr []"
    by simp
  show ?thesis
    using getClientConfigWithDefaults_fallback [OF mem, where all_entries = "[]" and env = acme_env]
      getClientConfigWithDefaults_fallback [OF mem,
        where all_entries = "[(ascii ''site.name'', JStr (ascii ''Mine''))]"
          and v = "JStr (ascii ''Mine'')" and env = acme_env]
      empty stored name page mine
    by simp
qed

section \<open>Masking on server reads\<close>

lemma map_of_mask_loop:
  assumes "distinct (map fst config)" and "k \<noteq> proto_name"
  shows "map_of (mask_loop config result) k
     = (case map_of config k of
          Some v \<Rightarrow> Some (if k \<in> set SENSITIVE_FIELDS \<and> truthy v then JStr mask_placeholder else v)
        | None \<Rightarrow> map_of result k)"
  using assms
proof (induction config arbitrary: result)
  case Nil
  then show ?case by simp
next
  case (Cons entry config)
  obtain key val where entry: "entry = (key, val)" by (cases entry)
  from Cons.prems entry have dist: "distinct (map fst config)" and fresh: "key \<notin> fst ` set config"
    by auto
  show ?case
  proof (cases "k = key")
    case True
    with fresh have none: "map_of config key = None"
      by (simp add: map_of_eq_None_iff)
    have np: "key \<noteq> proto_name"
      using True Cons.prems(2) by simp
    have ih: "map_of (mask_loop config r) key = map_of r key" for r
      using Cons.IH [OF dist Cons.prems(2), of r] True none by simp
    show ?thesis
      using True none by (simp add: entry ih map_of_obj_assign [OF np])
  next
    case False
    then show ?thesis
      by (simp add: entry Cons.IH [OF dist Cons.prems(2)] map_of_obj_assign_other [OF False]
          split: option.splits)
  qed
qed

lemma api_key_field_not_proto: "ascii ''ai_summary.api_key'' \<noteq> proto_name"
  by (simp add: proto_name_def ascii_def)

lemma mask_placeholder_truthy: "truthy (JStr mask_placeholder)"
  by (simp add: mask_placeholder_def)

lemma get_config_server_api_key:
  "returned_field (get_config env True (ascii ''server'') server_all client_all aiConfig)
       (ascii ''ai_summary.api_key'')
     = Some (if truthy (fe_api_key_set aiConfig) then JStr mask_placeholder else JStr [])"
proof -
  let ?k = "ascii ''ai_summary.api_key''"
  let ?v = "if truthy (fe_api_key_set aiConfig) then JStr mask_placeholder else JStr []"
  define before where "before =
     obj_assign (obj_assign (obj_assign (obj_assign (Object_fromEntries server_all)
       (ascii ''ai_summary.enabled'')
         (JStr (case fe_enabled aiConfig of Some True \<Rightarrow> ascii ''true''
                | Some False \<Rightarrow> ascii ''false'' | None \<Rightarrow> ascii ''undefined'')))
       (ascii ''ai_summary.provider'') (fe_provider aiConfig))
       (ascii ''ai_summary.model'') (fe_model aiConfig))
       (ascii ''ai_summary.api_url'') (fe_api_url aiConfig)"
  have reply: "get_config env True (ascii ''server'') server_all client_all aiConfig
      = \<lparr>set_status = None, returned = Object (maskSensitiveFields (obj_assign before ?k ?v))\<rparr>"
    by (simp add: get_config_def before_def Let_def)
  have dist: "distinct (map fst (obj_assign before ?k ?v))"
    unfolding before_def
    by (intro distinct_obj_assign distinct_Object_fromEntries)
  have stored: "map_of (obj_assign before ?k ?v) ?k = Some ?v"
    by (simp add: map_of_obj_assign [OF api_key_field_not_proto])
  have "map_of (maskSensitiveFields (obj_assign before ?k ?v)) ?k = Some ?v"
    unfolding maskSensitiveFields_def
    by (simp add: map_of_mask_loop [OF dist api_key_field_not_proto] stored
        SENSITIVE_FIELDS_def mask_placeholder_truthy)
  then show ?thesis
    by (simp add: returned_field_def reply)
qed

text \<open>
  Claim C7. An administrator reads the server configuration. After the AI key has been
  set to any non-empty value, \<open>ai_summary.api_key\<close> of the answer is the fixed
  placeholder, whatever the stored value is. When the stored key is empty (never set),
  it is the empty string, which is falsy and is not the placeholder.
\<close>

theorem get_config_server_masks_api_key:
  "(k \<noteq> [] \<longrightarrow>
      returned_field (get_config env True (ascii ''server'') server_all client_all
          (getAIConfigForFrontend (set_api_key config k))) (ascii ''ai_summary.api_key'')
        = Some (JStr mask_placeholder))
   \<and> (api_key config = [] \<longrightarrow>
      returned_field (get_config env True (ascii ''server'') server_all client_all
          (getAIConfigForFrontend config)) (ascii ''ai_summary.api_key'')
        = Some (JStr [])
      \<and> \<not> truthy (JStr []) \<and> JStr [] \<noteq> JStr mask_placeholder)"
  by (simp add: get_config_server_api_key getAIConfigForFrontend_def set_api_key_def
      mask_placeholder_def)

theorem get_config_server_masks_api_key_witness:
  "returned_field (get_config acme_env True (ascii ''server'') [] []
       (getAIConfigForFrontend (set_api_key (demo_config True ''openai'' [] []) (ascii ''sk-real-value''))))
     (ascii ''ai_summary.api_key'') = Some (JStr mask_placeholder)
   \<and> returned_field (get_config acme_env True (ascii ''server'') [] []
       (getAIConfigForFrontend (demo_config True ''openai'' [] [])))
     (ascii ''ai_summary.api_key'') = Some (JStr [])"
proof -
  have k: "ascii ''sk-real-value'' \<noteq> []"
    by simp
  have e: "api_key (demo_config True ''openai'' [] []) = []"
    by (simp add: demo_config_def)
  show ?thesis
    using k e
      get_config_server_masks_api_key [where k = "ascii ''sk-real-value''"
        and config = "demo_config True ''openai'' [] []" and env = acme_env
        and server_all = "[]" and client_all = "[]"]
    by simp
qed

section \<open>Configuration writes\<close>

lemma startsWith_append: "startsWith (p @ s) p"
  by (induction p) auto

lemma startsWith_decompose: "startsWith s p \<Longrightarrow> s = p @ drop (length p) s"
  by (induction s p rule: startsWith.induct) auto

lemma isAIConfigKey_prefix: "isAIConfigKey key \<longleftrightarrow> startsWith key (ascii ''ai_summary.'')"
  by (auto simp add: isAIConfigKey_def AI_CONFIG_KEYS_def ascii_def)

lemma replace_first_prefix:
  "startsWith key p \<Longrightarrow> replace_first key p [] = drop (length p) key"
  by (cases key) auto

text \<open>
  The write of the spec's example: \<open>ai_summary.model\<close> goes to the AI configuration
  under the name \<open>model\<close>, \<open>site.name\<close> to the store of the namespace.
\<close>

lemma post_config_example:
  "post_config True (ascii ''server'')
     [(ascii ''ai_summary.model'', JStr (ascii ''gpt'')), (ascii ''site.name'', JStr (ascii ''Acme''))]
   = (\<lparr>set_status = None, returned = Text (ascii ''OK'')\<rparr>,
      [Config_set (ascii ''server'') (ascii ''site.name'') (JStr (ascii ''Acme'')) False,
       Config_save (ascii ''server''),
       SetAIConfig \<lparr>own = [(ascii ''model'', JStr (ascii ''gpt''))], proto = None\<rparr>])"
  by (simp add: post_config_def isAIConfigKey_def AI_CONFIG_KEYS_def local_assign_def
      empty_obj_def for_in_entries_def proto_name_def ascii_def)

text \<open>
  Claim C10, at the body \<open>{"ai_summary.__proto__": "x"}\<close>. The key starts with the
  prefix and is taken off the generic store, but the assignment
  \<open>aiConfigUpdates['__proto__'] = "x"\<close> reaches the inherited setter and creates no
  property: \<open>aiConfigUpdates\<close> stays without keys and \<open>setAIConfig\<close> is never called.
  The write does nothing but save the store.
\<close>

theorem post_config_proto_key_dropped:
  "isAIConfigKey (ascii ''ai_summary.__proto__'')
   \<and> post_config True (ascii ''server'') [(ascii ''ai_summary.__proto__'', JStr (ascii ''x''))]
     = (\<lparr>set_status = None, returned = Text (ascii ''OK'')\<rparr>, [Config_save (ascii ''server'')])"
  by (simp add: post_config_def isAIConfigKey_def AI_CONFIG_KEYS_def local_assign_def
      empty_obj_def for_in_entries_def proto_name_def setter_reachable_def is_object_def
      ascii_def)

text \<open>
  The same root: a body whose \<open>__proto__\<close> property is an object makes that object the
  prototype of \<open>regularConfig\<close>, and the second loop enumerates its properties too. Here
  the body key \<open>ai_summary.model\<close> goes to the AI configuration, and a property of the
  same name is written to the generic store as well.
\<close>

lemma post_config_inherited_key_written:
  "post_config True (ascii ''server'')
     [(ascii ''__proto__'', JObj [(ascii ''ai_summary.model'', JStr (ascii ''evil''))]),
      (ascii ''ai_summary.model'', JStr (ascii ''gpt''))]
   = (\<lparr>set_status = None, returned = Text (ascii ''OK'')\<rparr>,
      [Config_set (ascii ''server'') (ascii ''ai_summary.model'') (JStr (ascii ''evil'')) False,
       Config_save (ascii ''server''),
       SetAIConfig \<lparr>own = [(ascii ''model'', JStr (ascii ''gpt''))], proto = None\<rparr>])"
  by (simp add: post_config_def isAIConfigKey_def AI_CONFIG_KEYS_def local_assign_def
      empty_obj_def for_in_entries_def proto_name_def setter_reachable_def is_object_def
      ascii_def)

section \<open>Inherited names as providers\<close>

text \<open>
  With a key, no explicit URL and the provider \<open>constructor\<close>, which the table of default
  URLs does not hold, the lookup finds the inherited function: no configuration error is
  thrown and a request is issued to the URL made of the function's source text.
\<close>

lemma executeExternalAI_inherited_provider:
  "map_of AI_PROVIDER_URLS (ascii ''constructor'') = None
   \<and> fst (executeExternalAI h (demo_config True ''constructor'' ''sk-1'' []) input)
     = [Fetch_call (chat_request h (builtin_source h (ascii ''constructor'')) (ascii ''sk-1'')
          (ascii ''m'') input)]"
  by (simp add: executeExternalAI_def demo_config_def get_prop_def js_or_def Let_def
      AI_PROVIDER_URLS_def Object_prototype_names_def proto_name_def ascii_def)

section \<open>Configuration writes: ordinary keys\<close>

lemma map_of_own_local_assign:
  "k' \<noteq> k \<Longrightarrow> map_of (own (local_assign obj k v)) k' = map_of (own obj) k'"
  by (simp add: local_assign_def map_of_obj_put)

lemma map_of_own_local_assign_same:
  "k \<noteq> proto_name \<Longrightarrow> map_of (own (local_assign obj k v)) k = Some v"
  by (simp add: local_assign_def map_of_obj_put)

lemma keys_own_local_assign:
  "fst ` set (own (local_assign obj k v)) \<subseteq> insert k (fst ` set (own obj))"
  by (auto simp add: local_assign_def keys_obj_put)

lemma proto_local_assign:
  "k \<noteq> proto_name \<Longrightarrow> proto (local_assign obj k v) = proto obj"
  by (simp add: local_assign_def)

text \<open>The stripped name determines the key among the keys with the prefix.\<close>

lemma stripped_inj:
  assumes "isAIConfigKey k1" and "isAIConfigKey k2"
    and "replace_first k1 (ascii ''ai_summary.'') [] = replace_first k2 (ascii ''ai_summary.'') []"
  shows "k1 = k2"
proof -
  let ?p = "ascii ''ai_summary.''"
  have s: "startsWith k1 ?p" "startsWith k2 ?p"
    using assms(1,2) by (simp_all add: isAIConfigKey_prefix)
  then have "drop (length ?p) k1 = drop (length ?p) k2"
    using assms(3) by (simp add: replace_first_prefix)
  then show ?thesis
    using startsWith_decompose [OF s(1)] startsWith_decompose [OF s(2)] by simp
qed

lemma separate_ai_other:
  assumes "\<forall>(key, val) \<in> set body.
             isAIConfigKey key \<longrightarrow> replace_first key (ascii ''ai_summary.'') [] \<noteq> k'"
  shows "map_of (own (snd (separate body (r, a)))) k' = map_of (own a) k'"
  using assms
proof (induction body arbitrary: r a)
  case Nil
  then show ?case by simp
next
  case (Cons entry body)
  obtain key val where entry: "entry = (key, val)" by (cases entry)
  from Cons.prems entry
  have rest: "\<forall>(key, val) \<in> set body.
      isAIConfigKey key \<longrightarrow> replace_first key (ascii ''ai_summary.'') [] \<noteq> k'"
    and head: "isAIConfigKey key \<longrightarrow> replace_first key (ascii ''ai_summary.'') [] \<noteq> k'"
    by auto
  show ?case
    using head
    by (auto simp add: entry Cons.IH [OF rest] map_of_own_local_assign)
qed

lemma separate_ai_entry:
  assumes "distinct (map fst body)" and "(key, val) \<in> set body" and "isAIConfigKey key"
    and "replace_first key (ascii ''ai_summary.'') [] \<noteq> proto_name"
  shows "map_of (own (snd (separate body (r, a))))
           (replace_first key (ascii ''ai_summary.'') []) = Some val"
  using assms(1,2)
proof (induction body arbitrary: r a)
  case Nil
  then show ?case by simp
next
  case (Cons entry body)
  let ?strip = "\<lambda>k. replace_first k (ascii ''ai_summary.'') []"
  obtain key0 val0 where entry: "entry = (key0, val0)" by (cases entry)
  from Cons.prems entry have dist: "distinct (map fst body)" and fresh: "key0 \<notin> fst ` set body"
    by auto
  show ?case
  proof (cases "(key, val) = (key0, val0)")
    case True
    have later: "\<forall>(k, v) \<in> set body. isAIConfigKey k \<longrightarrow> ?strip k \<noteq> ?strip key"
    proof (clarify)
      fix k v
      assume "(k, v) \<in> set body" and "isAIConfigKey k" and "?strip k = ?strip key"
      then have "k = key" and "k \<in> fst ` set body"
        using stripped_inj [OF _ assms(3)] by force+
      with True fresh show False by simp
    qed
    from True have k0: "key0 = key" "val0 = val"
      by simp_all
    show ?thesis
      using assms(3,4)
      by (simp add: entry k0 separate_ai_other [OF later] map_of_own_local_assign_same)
  next
    case False
    with Cons.prems entry have "(key, val) \<in> set body" by auto
    then show ?thesis
      using Cons.IH [OF dist] by (simp add: entry)
  qed
qed

lemma separate_regular_keys:
  "fst ` set (own (fst (separate body (r, a))))
     \<subseteq> fst ` set (own r) \<union> {k \<in> fst ` set body. \<not> isAIConfigKey k}"
proof (induction body arbitrary: r a)
  case Nil
  then show ?case by simp
next
  case (Cons entry body)
  obtain key val where entry: "entry = (key, val)" by (cases entry)
  show ?case
  proof (cases "isAIConfigKey key")
    case True
    then show ?thesis
      using Cons.IH [of r "local_assign a (replace_first key (ascii ''ai_summary.'') []) val"]
      by (auto simp add: entry)
  next
    case False
    then show ?thesis
      using Cons.IH [of "local_assign r key val" a] keys_own_local_assign [of r key val]
      by (auto simp add: entry)
  qed
qed

lemma separate_regular_proto:
  "proto_name \<notin> fst ` set body \<Longrightarrow> proto (fst (separate body (r, a))) = proto r"
proof (induction body arbitrary: r a)
  case Nil
  then show ?case by simp
next
  case (Cons entry body)
  obtain key val where entry: "entry = (key, val)" by (cases entry)
  from Cons.prems entry have "key \<noteq> proto_name" and "proto_name \<notin> fst ` set body"
    by auto
  then show ?case
    using Cons.IH by (simp add: entry proto_local_assign)
qed

text \<open>
  For a body of distinct keys without the key \<open>__proto__\<close>, every key with the prefix
  other than \<open>ai_summary.__proto__\<close> reaches \<open>setAIConfig\<close> under its stripped name and
  with its value, and no \<open>config.set\<close> carries it.
\<close>

lemma post_config_reroutes:
  assumes "type = ascii ''server'' \<or> type = ascii ''client''"
    and "distinct (map fst body)" and "proto_name \<notin> fst ` set body"
    and "(key, val) \<in> set body" and "startsWith key (ascii ''ai_summary.'')"
    and "key \<noteq> ascii ''ai_summary.'' @ proto_name"
  shows "\<exists>updates. SetAIConfig updates \<in> set (snd (post_config True type body))
           \<and> map_of (own updates) (drop 11 key) = Some val"
    and "Config_set type key v flush \<notin> set (snd (post_config True type body))"
proof -
  let ?p = "ascii ''ai_summary.''"
  let ?sep = "separate body (empty_obj, empty_obj)"
  have len: "length ?p = 11"
    by (simp add: ascii_def)
  have ai: "isAIConfigKey key"
    using assms(5) by (simp add: isAIConfigKey_prefix)
  have strip: "replace_first key ?p [] = drop 11 key"
    using replace_first_prefix [OF assms(5)] len by simp
  have "key = ?p @ drop 11 key"
    using startsWith_decompose [OF assms(5)] len by simp
  with assms(6) have np: "replace_first key ?p [] \<noteq> proto_name"
    using strip by auto
  have entry: "map_of (own (snd ?sep)) (drop 11 key) = Some val"
    using separate_ai_entry [OF assms(2,4) ai np, of empty_obj empty_obj] strip by simp
  then have nonempty: "own (snd ?sep) \<noteq> []"
    by auto
  have eff: "snd (post_config True type body)
      = map (\<lambda>(key, val). Config_set type key val False) (for_in_entries (fst ?sep))
        @ [Config_save type] @ [SetAIConfig (snd ?sep)]"
    using assms(1) nonempty by (auto simp add: post_config_def case_prod_beta)
  show "\<exists>updates. SetAIConfig updates \<in> set (snd (post_config True type body))
           \<and> map_of (own updates) (drop 11 key) = Some val"
    using entry by (auto simp add: eff)
  have "proto (fst ?sep) = None"
    using separate_regular_proto [OF assms(3), of empty_obj empty_obj]
    by (simp add: empty_obj_def)
  then have own_only: "for_in_entries (fst ?sep) = own (fst ?sep)"
    by (simp add: for_in_entries_def)
  have "key \<notin> fst ` set (own (fst ?sep))"
    using separate_regular_keys [of body empty_obj empty_obj] ai
    by (auto simp add: empty_obj_def)
  then show "Config_set type key v flush \<notin> set (snd (post_config True type body))"
    by (auto simp add: eff own_only rev_image_eqI)
qed
end
